theory Spec2Isabelle
  imports Main "HOL-Library.Word"
begin

section \<open>The line driver of the microcontroller (iec\_driver.h)\<close>

text \<open>
  The driver works on Arduino GPIO pins through \<open>pinMode\<close>, \<open>digitalWrite\<close> and
  \<open>digitalRead\<close>. Those three belong to the Arduino core, not to this repository; they are
  modelled on a pin that has a direction and an output latch. Switching a pin to input
  clears its latch (no pull-up) and switching it to output keeps the latch; writing sets the
  latch, which on an input pin is the pull-up. A pin in input mode does not drive the line;
  \<open>digitalRead\<close> on it returns the level of the line as the bus presents it (the
  parameter \<open>line\<close>, \<open>True\<close> for HIGH), and on an output pin the level the pin drives.
\<close>

type_synonym byte = "8 word"

datatype pin_mode = INPUT | OUTPUT

datatype pin_level = LOW | HIGH

record pin =
  mode :: pin_mode
  latch :: pin_level

type_synonym board = "byte \<Rightarrow> pin"

text \<open>The level of each IEC line as sensed from outside the microcontroller.\<close>

type_synonym lines = "byte \<Rightarrow> bool"

definition pinMode :: "byte \<Rightarrow> pin_mode \<Rightarrow> board \<Rightarrow> board" where
  "pinMode pinNumber m b =
     b(pinNumber :=
         (case m of
            INPUT \<Rightarrow> \<lparr>mode = INPUT, latch = LOW\<rparr>
          | OUTPUT \<Rightarrow> (b pinNumber)\<lparr>mode := OUTPUT\<rparr>))"

definition digitalWrite :: "byte \<Rightarrow> pin_level \<Rightarrow> board \<Rightarrow> board" where
  "digitalWrite pinNumber v b = b(pinNumber := (b pinNumber)\<lparr>latch := v\<rparr>)"

definition digitalRead :: "lines \<Rightarrow> byte \<Rightarrow> board \<Rightarrow> bool" where
  "digitalRead line pinNumber b =
     (case mode (b pinNumber) of
        INPUT \<Rightarrow> line pinNumber
      | OUTPUT \<Rightarrow> latch (b pinNumber) = HIGH)"

text \<open>The pin assignment held by an \<open>IEC\<close> object (the members \<open>m_atnPin\<close> ...).\<close>

record IEC =
  m_atnPin :: byte
  m_dataPin :: byte
  m_clockPin :: byte
  m_srqInPin :: byte
  m_resetPin :: byte

text \<open>
  \<open>readPIN\<close>: ``To be able to read line we must be set to input, not driving.''
  It returns the sampled value (\<open>False\<close> = LOW, \<open>True\<close> = HIGH) and the board it leaves.
\<close>

definition readPIN :: "lines \<Rightarrow> byte \<Rightarrow> board \<Rightarrow> bool \<times> board" where
  "readPIN line pinNumber b =
     (let b1 = pinMode pinNumber INPUT b
      in ((if digitalRead line pinNumber b1 then True else False), b1))"

definition readATN :: "lines \<Rightarrow> IEC \<Rightarrow> board \<Rightarrow> bool \<times> board" where
  "readATN line iec b = readPIN line (m_atnPin iec) b"

definition readDATA :: "lines \<Rightarrow> IEC \<Rightarrow> board \<Rightarrow> bool \<times> board" where
  "readDATA line iec b = readPIN line (m_dataPin iec) b"

definition readCLOCK :: "lines \<Rightarrow> IEC \<Rightarrow> board \<Rightarrow> bool \<times> board" where
  "readCLOCK line iec b = readPIN line (m_clockPin iec) b"

definition readRESET :: "lines \<Rightarrow> IEC \<Rightarrow> board \<Rightarrow> bool \<times> board" where
  "readRESET line iec b =
     (case readPIN line (m_resetPin iec) b of (v, b1) \<Rightarrow> (\<not> v, b1))"

text \<open>\<open>writePIN\<close>: state \<open>True\<close> pulls the line, \<open>False\<close> releases it.\<close>

definition writePIN :: "byte \<Rightarrow> bool \<Rightarrow> board \<Rightarrow> board" where
  "writePIN pinNumber state b =
     digitalWrite pinNumber (if state then LOW else HIGH)
       (pinMode pinNumber (if state then OUTPUT else INPUT) b)"

definition writeATN :: "IEC \<Rightarrow> bool \<Rightarrow> board \<Rightarrow> board" where
  "writeATN iec state b = writePIN (m_atnPin iec) state b"

definition writeDATA :: "IEC \<Rightarrow> bool \<Rightarrow> board \<Rightarrow> board" where
  "writeDATA iec state b = writePIN (m_dataPin iec) state b"

definition writeCLOCK :: "IEC \<Rightarrow> bool \<Rightarrow> board \<Rightarrow> board" where
  "writeCLOCK iec state b = writePIN (m_clockPin iec) state b"

definition writeRESET :: "IEC \<Rightarrow> bool \<Rightarrow> board \<Rightarrow> board" where
  "writeRESET iec state b = writePIN (m_resetPin iec) state b"

section \<open>Status values of the host library\<close>

text \<open>
  Modelled from the spec: \<open>IECStatus\<close>, its error kinds and \<open>SetError\<close> are declared in
  utils.h, which is not among the sources. The spec names the error kinds; the sources use a
  default-constructed status as the success value (\<open>IECStatus iecStatus;\<close> followed by
  \<open>r.second.ok()\<close>) and \<open>SetError(kind, message, &status)\<close> to fill a status in.
\<close>

datatype IECStatusCode =
  OK | CONNECTION_FAILURE | IEC_CONNECTION_FAILURE | INVALID_ARGUMENT | END_OF_FILE

record IECStatus =
  status_code :: IECStatusCode
  message :: string

definition IECStatus_default :: IECStatus where
  "IECStatus_default = \<lparr>status_code = OK, message = []\<rparr>"

definition ok :: "IECStatus \<Rightarrow> bool" where
  "ok s = (status_code s = OK)"

definition SetError :: "IECStatusCode \<Rightarrow> string \<Rightarrow> IECStatus" where
  "SetError code msg = \<lparr>status_code = code, message = msg\<rparr>"

section \<open>The channel API of the host (iec\_host\_lib.cc)\<close>

definition kMaxSendPacketSize :: nat where
  "kMaxSendPacketSize = 256"

definition kCmdOpen :: string where
  "kCmdOpen = ''o''"

definition kCmdPutData :: string where
  "kCmdPutData = ''p''"

text \<open>
  The promise slot \<open>response_promise_\<close>: a promise either has no value yet or holds the
  pair the reader thread has set.
\<close>

datatype promise = Pending | Fulfilled "string \<times> IECStatus"

text \<open>
  The API thread sees the serial link and the reader thread only through
  \<open>WriteString\<close> and through \<open>f.get()\<close> on the future of the request. What happens to the
  \<open>i\<close>-th request written on a connection is the environment of the API: the write fails
  with a status, or the reader thread resolves the promise with a payload and a status, or
  it never does (the caller then stays blocked in \<open>f.get()\<close>).
\<close>

datatype exchange =
  WriteFails IECStatus
  | Resolves string IECStatus
  | NeverResolves

type_synonym arduino = "nat \<Rightarrow> exchange"

text \<open>
  The connection as the API thread changes it: the requests handed to the serial link so
  far, oldest first, and the promise slot.
\<close>

record conn =
  written :: "string list"
  response_promise :: promise

text \<open>\<open>RequestResult\<close> installs a fresh promise and returns its future.\<close>

definition RequestResult :: "'a conn_scheme \<Rightarrow> 'a conn_scheme" where
  "RequestResult c = c\<lparr>response_promise := Pending\<rparr>"

text \<open>
  Modelled from the spec: \<open>BufferedReadWriter::WriteString\<close> (utils.h) is not among the
  sources. The writer ``prepends nothing; it writes the raw bytes of the request frames'',
  and a failure of the tty comes back as a status.
\<close>

definition WriteString ::
  "arduino \<Rightarrow> string \<Rightarrow> 'a conn_scheme \<Rightarrow> IECStatus + 'a conn_scheme" where
  "WriteString env s c =
     (case env (length (written c)) of
        WriteFails status \<Rightarrow> Inl status
      | _ \<Rightarrow> Inr (c\<lparr>written := written c @ [s]\<rparr>))"

text \<open>
  \<open>f.get()\<close> on the future of the request written last: it returns the pair the reader
  thread sets on the promise, and \<open>None\<close> stands for a caller that waits forever.
\<close>

definition future_get :: "arduino \<Rightarrow> conn \<Rightarrow> ((string \<times> IECStatus) \<times> conn) option" where
  "future_get env c =
     (case env (length (written c) - 1) of
        Resolves payload status \<Rightarrow>
          Some ((payload, status), c\<lparr>response_promise := Fulfilled (payload, status)\<rparr>)
      | _ \<Rightarrow> None)"

text \<open>
  The operations return \<open>bool\<close> and fill \<open>*status\<close> when they return false: \<open>Inl status\<close>
  is the return of false, \<open>Inr\<close> the return of true, \<open>None\<close> a call that never returns.
  \<open>static_cast<char>(n)\<close> keeps the low eight bits of \<open>n\<close>, as \<open>char_of\<close> does.
\<close>

definition OpenChannel ::
  "arduino \<Rightarrow> char \<Rightarrow> char \<Rightarrow> string \<Rightarrow> conn \<Rightarrow> (IECStatus + unit) option \<times> conn" where
  "OpenChannel env device_number channel cmd_string c =
     (let c1 = RequestResult c;
          request_string = kCmdOpen @ [device_number] @ [channel]
                           @ [char_of (length cmd_string)] @ cmd_string
      in case WriteString env request_string c1 of
           Inl status \<Rightarrow> (Some (Inl status), c1)
         | Inr c2 \<Rightarrow>
             (case future_get env c2 of
                None \<Rightarrow> (None, c2)
              | Some (r, c3) \<Rightarrow>
                  if ok (snd r) then (Some (Inr ()), c3) else (Some (Inl (snd r)), c3)))"

function WriteToChannel_loop ::
  "arduino \<Rightarrow> char \<Rightarrow> char \<Rightarrow> string \<Rightarrow> nat \<Rightarrow> conn \<Rightarrow> (IECStatus + unit) option \<times> conn" where
  "WriteToChannel_loop env device_number channel data_string curr_pos c =
     (if curr_pos < length data_string then
        (let c1 = RequestResult c;
             to_write = min (length data_string - curr_pos) kMaxSendPacketSize;
             request_string = kCmdPutData @ [device_number] @ [channel]
                              @ [char_of to_write] @ take to_write (drop curr_pos data_string)
         in case WriteString env request_string c1 of
              Inl status \<Rightarrow> (Some (Inl status), c1)
            | Inr c2 \<Rightarrow>
                (case future_get env c2 of
                   None \<Rightarrow> (None, c2)
                 | Some (r, c3) \<Rightarrow>
                     if \<not> ok (snd r) then (Some (Inl (snd r)), c3)
                     else WriteToChannel_loop env device_number channel data_string
                            (curr_pos + to_write) c3))
      else (Some (Inr ()), c))"
  by pat_completeness auto
termination
  by (relation "measure (\<lambda>(env, d, ch, data, pos, c). length data - pos)")
     (auto simp: kMaxSendPacketSize_def)

declare WriteToChannel_loop.simps [simp del]

definition WriteToChannel ::
  "arduino \<Rightarrow> char \<Rightarrow> char \<Rightarrow> string \<Rightarrow> conn \<Rightarrow> (IECStatus + unit) option \<times> conn" where
  "WriteToChannel env device_number channel data_string c =
     (if data_string = [] then (Some (Inr ()), c)
      else WriteToChannel_loop env device_number channel data_string 0 c)"

text \<open>
  Vocabulary for the statements about \<open>WriteToChannel\<close>: an exchange is acknowledged
  when the write succeeded and the promise was resolved with a success status;
  \<open>data_chunks\<close> cuts a string into consecutive pieces of \<open>kMaxSendPacketSize\<close> bytes (the
  last one shorter), and \<open>put_request\<close> is the frame of one piece.
\<close>

definition acknowledged :: "exchange \<Rightarrow> bool" where
  "acknowledged x = (case x of Resolves payload status \<Rightarrow> ok status | _ \<Rightarrow> False)"

definition data_chunks :: "string \<Rightarrow> string list" where
  "data_chunks data =
     map (\<lambda>i. take kMaxSendPacketSize (drop (i * kMaxSendPacketSize) data))
       [0..<(length data + (kMaxSendPacketSize - 1)) div kMaxSendPacketSize]"

definition put_request :: "char \<Rightarrow> char \<Rightarrow> string \<Rightarrow> string" where
  "put_request dev chan d = kCmdPutData @ [dev] @ [chan] @ [char_of (length d)] @ d"

section \<open>The reader thread of the host (iec\_host\_lib.cc)\<close>

definition kMaxLength :: nat where
  "kMaxLength = 512 + 1"

text \<open>
  The connection object as the reader thread and \<open>Initialize\<close> see it. It extends the
  state of the API thread by the read side of the serial link, the wake-up pipe, the local
  variable \<open>last_response\<close> of \<open>ProcessResponses\<close>, the debug channel map and the calls made
  to \<open>log_callback_\<close> (level, channel, message), oldest first.

  Modelled from the spec: \<open>BufferedReadWriter\<close> (utils.h) is not among the sources. Its read
  side is a buffer (\<open>buffered\<close>) in front of the file descriptor; \<open>fd_data\<close> are the bytes
  the Arduino has sent that are still to be read from the descriptor, and \<open>fd_error\<close> is the
  failure the descriptor reports once those bytes are used up (\<open>None\<close>: it just stays
  silent). \<open>terminate\<close> says that the destructor has written its byte to \<open>tthread_pipe_\<close>.
\<close>

record reader = conn +
  buffered :: string
  fd_data :: string
  fd_error :: "IECStatus option"
  terminate :: bool
  last_response :: string
  debug_channel_map :: "char \<rightharpoonup> string"
  logged :: "(char \<times> string \<times> string) list"

definition log_callback :: "char \<Rightarrow> string \<Rightarrow> string \<Rightarrow> reader \<Rightarrow> reader" where
  "log_callback level channel msg st = st\<lparr>logged := logged st @ [(level, channel, msg)]\<rparr>"

text \<open>The outcome of a read: the bytes read, a failure with its status, or no return.\<close>

datatype read_result =
  Got string reader
  | Failed IECStatus reader
  | Starved

text \<open>
  Modelled from the spec: a read first takes over what the descriptor has to offer. When the
  bytes asked for are not there, the read fails if the descriptor reports a failure and
  otherwise waits for bytes that never come.
\<close>

definition fill_buffer :: "reader \<Rightarrow> reader" where
  "fill_buffer st = st\<lparr>buffered := buffered st @ fd_data st, fd_data := []\<rparr>"

text \<open>
  Modelled from the spec: \<open>HasBufferedData\<close> tells whether the buffer holds bytes that
  no read has consumed yet.
\<close>

definition HasBufferedData :: "reader \<Rightarrow> bool" where
  "HasBufferedData st = (buffered st \<noteq> [])"

text \<open>
  Modelled from the spec: \<open>ReadUpTo(min_length, max_length, ...)\<close> reads at least
  \<open>min_length\<close> and at most \<open>max_length\<close> bytes; the reader calls it with \<open>(1, 1)\<close> to read
  the ``single-byte discriminator''.
\<close>

definition ReadUpTo :: "nat \<Rightarrow> nat \<Rightarrow> reader \<Rightarrow> read_result" where
  "ReadUpTo min_length max_length st =
     (let st1 = fill_buffer st in
      if min_length \<le> length (buffered st1)
      then Got (take max_length (buffered st1))
               (st1\<lparr>buffered := drop max_length (buffered st1)\<rparr>)
      else (case fd_error st1 of
              Some status \<Rightarrow> Failed status st1
            | None \<Rightarrow> Starved))"

text \<open>
  Modelled from the spec: \<open>ReadTerminatedString(term, max_length, ...)\<close> reads ``lines
  terminated by \<open>\r\<close> up to 513 bytes''. iec\_host\_lib.cc describes \<open>max_length\<close> as the
  ``maximum chars to read looking for \<open>\r\<close>'', terminator included, and uses the result
  without the terminator (an empty status line is \<open>read_string.empty()\<close>). A line with no
  terminator among its first \<open>max_length\<close> bytes is broken framing, a
  \<open>CONNECTION_FAILURE\<close>.
\<close>

definition ReadTerminatedString :: "char \<Rightarrow> nat \<Rightarrow> reader \<Rightarrow> read_result" where
  "ReadTerminatedString term_symbol max_length st =
     (let st1 = fill_buffer st in
      if term_symbol \<in> set (take max_length (buffered st1))
      then Got (takeWhile (\<lambda>c. c \<noteq> term_symbol) (buffered st1))
               (st1\<lparr>buffered := tl (dropWhile (\<lambda>c. c \<noteq> term_symbol) (buffered st1))\<rparr>)
      else if max_length \<le> length (buffered st1)
      then Failed (SetError CONNECTION_FAILURE ''terminator not found'') st1
      else (case fd_error st1 of
              Some status \<Rightarrow> Failed status st1
            | None \<Rightarrow> Starved))"

text \<open>
  \<open>GetPrintableString\<close>. Plain \<open>char\<close> is taken as signed, as on the x86 hosts the tool is
  built for, so \<open>c < 32\<close> also holds for the bytes from 128 on. Boost.Format writes its
  argument with the stream operator of the argument's type: for a \<open>char\<close> argument \<open>%u\<close>
  gives the character itself.
\<close>

definition char_to_int :: "char \<Rightarrow> int" where
  "char_to_int c = (if (of_char c :: nat) < 128 then of_char c else of_char c - 256)"

fun GetPrintableString :: "string \<Rightarrow> string" where
  "GetPrintableString [] = []"
| "GetPrintableString (c # str) =
     (if c = CHR 0x0D then [CHR 0x5C, CHR ''r'']
      else if c = CHR 0x0A then [CHR 0x5C, CHR ''n'']
      else if char_to_int c < 32 then [CHR ''#'', c]
      else [c]) @ GetPrintableString str"

text \<open>
  \<open>boost::format("%#x") % static_cast<int>(c)\<close>: hexadecimal with the base shown; a
  negative \<open>int\<close> is written as its 32-bit two's complement, and zero as \<open>0\<close>.
\<close>

fun hex_digits :: "nat \<Rightarrow> string" where
  "hex_digits n =
     (if n < 16 then [''0123456789abcdef'' ! n]
      else hex_digits (n div 16) @ [''0123456789abcdef'' ! (n mod 16)])"

declare hex_digits.simps [simp del]

definition format_hex :: "int \<Rightarrow> string" where
  "format_hex v = (if v = 0 then ''0'' else ''0x'' @ hex_digits (nat (v mod 2 ^ 32)))"

text \<open>
  One turn of the loop of \<open>ProcessResponses\<close> either goes on to the next turn, or returns
  (the thread ends), or never comes back from \<open>select\<close> or from a read, or ends in the
  exception that \<open>std::promise::set_value\<close> throws on a promise that already has a value.
\<close>

datatype thread_step =
  Continue reader
  | Return reader
  | Blocked reader
  | Abort reader

text \<open>
  The pattern \<open>if (!ReadTerminatedString('\r', kMaxLength, &read_string, &status))
  { log_callback_('E', "CLIENT", status.message); return; }\<close> with what follows it.
\<close>

definition read_frame_body :: "reader \<Rightarrow> (string \<Rightarrow> reader \<Rightarrow> thread_step) \<Rightarrow> thread_step" where
  "read_frame_body st rest =
     (case ReadTerminatedString (CHR 0x0D) kMaxLength st of
        Failed status st1 \<Rightarrow> Return (log_callback (CHR ''E'') ''CLIENT'' (message status) st1)
      | Starved \<Rightarrow> Blocked st
      | Got read_string st1 \<Rightarrow> rest read_string st1)"

text \<open>
  \<open>UnescapeString\<close> (utils.h) is not among the sources and the spec leaves the escaping
  scheme open; the reader takes it as a parameter that fails with a status or returns the
  unescaped string.
\<close>

definition ProcessResponses_body ::
  "(string \<Rightarrow> IECStatus + string) \<Rightarrow> reader \<Rightarrow> thread_step" where
  "ProcessResponses_body UnescapeString st =
     (if \<not> HasBufferedData st \<and> terminate st then Return st
      else if \<not> HasBufferedData st \<and> fd_data st = [] \<and> fd_error st = None then Blocked st
      else
        (case ReadUpTo 1 1 st of
           Failed status st1 \<Rightarrow> Return (log_callback (CHR ''E'') ''CLIENT'' (message status) st1)
         | Starved \<Rightarrow> Blocked st
         | Got type_string st1 \<Rightarrow>
             (let msg_type = (case type_string of [] \<Rightarrow> CHR 0x00 | c # _ \<Rightarrow> c) in
              if msg_type = CHR ''!'' then
                read_frame_body st1 (\<lambda>read_string st2.
                  if length read_string < 2
                  then Return (log_callback (CHR ''E'') ''CLIENT''
                         (''Malformed channel configuration string '' @ [CHR 0x27]
                            @ read_string @ [CHR 0x27]) st2)
                  else Continue (st2\<lparr>debug_channel_map :=
                         (debug_channel_map st2)(read_string ! 0 \<mapsto> drop 1 read_string)\<rparr>))
              else if msg_type = CHR ''D'' then
                read_frame_body st1 (\<lambda>read_string st2.
                  if length read_string < 3 \<or> debug_channel_map st2 (read_string ! 1) = None
                  then Return (log_callback (CHR ''E'') ''CLIENT''
                         (''Malformed debug message '' @ [CHR 0x27]
                            @ GetPrintableString read_string @ [CHR 0x27]) st2)
                  else Continue (log_callback (read_string ! 0)
                         (the (debug_channel_map st2 (read_string ! 1)))
                         (drop 2 read_string) st2))
              else if msg_type = CHR ''r'' then
                read_frame_body st1 (\<lambda>read_string st2.
                  case UnescapeString read_string of
                    Inl status \<Rightarrow>
                      Return (log_callback (CHR ''E'') ''CLIENT'' (message status) st2)
                  | Inr unescaped_response \<Rightarrow>
                      Continue (st2\<lparr>last_response := unescaped_response\<rparr>))
              else if msg_type = CHR ''s'' then
                read_frame_body st1 (\<lambda>read_string st2.
                  let iecStatus =
                        (if read_string \<noteq> []
                         then SetError IEC_CONNECTION_FAILURE read_string
                         else IECStatus_default)
                  in case response_promise st2 of
                       Fulfilled v \<Rightarrow> Abort st2
                     | Pending \<Rightarrow>
                         Continue (st2\<lparr>response_promise :=
                                          Fulfilled (last_response st2, iecStatus),
                                        last_response := []\<rparr>))
              else
                Return (log_callback (CHR ''E'') ''CLIENT''
                  (''Unknown response msg type '' @ format_hex (char_to_int msg_type)) st1))))"









text \<open>
  Vocabulary for the statements about the reader: the frames the Arduino sends, as the
  reader parses them, and their bytes on the wire. A channel configuration is \<open>!\<close>, the
  channel id and its name; a debug message is \<open>D\<close>, the level, the channel id and the
  text; a response is \<open>r\<close> and the escaped payload; a status is \<open>s\<close> and the message. Every
  frame ends with \<open>\r\<close>.
\<close>

datatype frame =
  ChannelConfig char string
  | DebugMessage char char string
  | Response string
  | Status string

fun wire :: "frame \<Rightarrow> string" where
  "wire (ChannelConfig ch name) = CHR ''!'' # ch # name @ [CHR 0x0D]"
| "wire (DebugMessage level ch msg) = CHR ''D'' # level # ch # msg @ [CHR 0x0D]"
| "wire (Response escaped) = CHR ''r'' # escaped @ [CHR 0x0D]"
| "wire (Status msg) = CHR ''s'' # msg @ [CHR 0x0D]"

text \<open>A line the reader can read: no \<open>\r\<close> inside, and the \<open>\r\<close> among the first 513 bytes.\<close>

definition line_ok :: "string \<Rightarrow> bool" where
  "line_ok l = (CHR 0x0D \<notin> set l \<and> length l < kMaxLength)"

text \<open>
  The frames the reader goes on after, given the debug channel map at that moment: a channel
  configuration with a name, a debug message with a text on a configured channel, a
  response whose payload unescapes. A status frame ends a window and is not part of it.
\<close>

fun frame_accepted ::
  "(string \<Rightarrow> IECStatus + string) \<Rightarrow> (char \<rightharpoonup> string) \<Rightarrow> frame \<Rightarrow> bool" where
  "frame_accepted U m (ChannelConfig ch name) = (name \<noteq> [] \<and> line_ok (ch # name))"
| "frame_accepted U m (DebugMessage level ch msg) =
     (msg \<noteq> [] \<and> line_ok (level # ch # msg) \<and> m ch \<noteq> None)"
| "frame_accepted U m (Response escaped) =
     (line_ok escaped \<and> (case U escaped of Inr u \<Rightarrow> True | Inl e \<Rightarrow> False))"
| "frame_accepted U m (Status msg) = False"

fun configure :: "(char \<rightharpoonup> string) \<Rightarrow> frame \<Rightarrow> (char \<rightharpoonup> string)" where
  "configure m (ChannelConfig ch name) = m(ch \<mapsto> name)"
| "configure m f = m"

fun window_accepted ::
  "(string \<Rightarrow> IECStatus + string) \<Rightarrow> (char \<rightharpoonup> string) \<Rightarrow> frame list \<Rightarrow> bool" where
  "window_accepted U m [] = True"
| "window_accepted U m (f # fs) = (frame_accepted U m f \<and> window_accepted U (configure m f) fs)"

text \<open>The escaped payloads of the response frames of a window, in order.\<close>

fun responses :: "frame list \<Rightarrow> string list" where
  "responses [] = []"
| "responses (Response escaped # fs) = escaped # responses fs"
| "responses (f # fs) = responses fs"

text \<open>The frames of a window that are not responses: what the reader logs or configures.\<close>

fun is_log_frame :: "frame \<Rightarrow> bool" where
  "is_log_frame (ChannelConfig ch name) = True"
| "is_log_frame (DebugMessage level ch msg) = True"
| "is_log_frame f = False"

text \<open>The status a status frame with message \<open>msg\<close> stands for.\<close>

definition status_of :: "string \<Rightarrow> IECStatus" where
  "status_of msg = (if msg = [] then IECStatus_default else SetError IEC_CONNECTION_FAILURE msg)"

text \<open>
  What a turn of the loop does to the connection when it has read a frame and goes on, on
  the frame rather than on its bytes; \<open>apply_frames\<close> does so for a list of frames.
\<close>

definition apply_frame :: "(string \<Rightarrow> IECStatus + string) \<Rightarrow> reader \<Rightarrow> frame \<Rightarrow> reader" where
  "apply_frame U st f =
     (case f of
        ChannelConfig ch name \<Rightarrow> st\<lparr>debug_channel_map := (debug_channel_map st)(ch \<mapsto> name)\<rparr>
      | DebugMessage level ch msg \<Rightarrow> log_callback level (the (debug_channel_map st ch)) msg st
      | Response escaped \<Rightarrow> st\<lparr>last_response := projr (U escaped)\<rparr>
      | Status msg \<Rightarrow> st\<lparr>response_promise := Fulfilled (last_response st, status_of msg),
                           last_response := []\<rparr>)"

definition apply_frames :: "(string \<Rightarrow> IECStatus + string) \<Rightarrow> reader \<Rightarrow> frame list \<Rightarrow> reader" where
  "apply_frames U st fs = foldl (apply_frame U) st fs"

text \<open>
  The payload a window hands to its status frame: the unescaped payload of its last response
  frame, and what \<open>last_response\<close> held before the window when it has none.
\<close>

definition window_payload :: "(string \<Rightarrow> IECStatus + string) \<Rightarrow> string \<Rightarrow> frame list \<Rightarrow> string" where
  "window_payload U lr fs = (if responses fs = [] then lr else projr (U (last (responses fs))))"

text \<open>\<open>k\<close> turns of the loop of \<open>ProcessResponses\<close>.\<close>

fun turns :: "(string \<Rightarrow> IECStatus + string) \<Rightarrow> nat \<Rightarrow> reader \<Rightarrow> thread_step" where
  "turns U 0 st = Continue st"
| "turns U (Suc k) st =
     (case ProcessResponses_body U st of
        Continue st' \<Rightarrow> turns U k st'
      | Return st' \<Rightarrow> Return st'
      | Blocked st' \<Rightarrow> Blocked st'
      | Abort st' \<Rightarrow> Abort st')"

text \<open>
  The threads of a connection, one event at a time. The reader thread is running, has
  returned from \<open>ProcessResponses\<close>, or has ended the process with an uncaught exception.
  The events are: the reader thread takes one turn of its loop (a turn that would wait in
  \<open>select\<close> or in a read for bytes that are not there yet takes place once they are);
  bytes sent by the Arduino become readable on the descriptor; the API thread issues a
  request, that is \<open>RequestResult()\<close> followed by the write of the request string; the
  destructor \<open>~IECBusConnection\<close> writes its byte to \<open>tthread_pipe_\<close>.
\<close>

datatype thread_status = Running | Returned | Aborted

datatype event =
  Turn
  | Arrive string
  | Request string
  | Destroy


fun step ::
  "(string \<Rightarrow> IECStatus + string) \<Rightarrow> thread_status \<times> reader \<Rightarrow> event
     \<Rightarrow> thread_status \<times> reader" where
  "step U (th, st) Turn =
     (case th of
        Running \<Rightarrow>
          (case ProcessResponses_body U st of
             Continue st' \<Rightarrow> (Running, st')
           | Return st' \<Rightarrow> (Returned, st')
           | Blocked st' \<Rightarrow> (Running, st)
           | Abort st' \<Rightarrow> (Aborted, st'))
      | Returned \<Rightarrow> (Returned, st)
      | Aborted \<Rightarrow> (Aborted, st))"
| "step U (th, st) (Arrive bytes) = (th, st\<lparr>fd_data := fd_data st @ bytes\<rparr>)"
| "step U (th, st) (Request request_string) =
     (th, (RequestResult st)\<lparr>written := written st @ [request_string]\<rparr>)"
| "step U (th, st) Destroy = (th, st\<lparr>terminate := True\<rparr>)"

definition run ::
  "(string \<Rightarrow> IECStatus + string) \<Rightarrow> thread_status \<times> reader \<Rightarrow> event list
     \<Rightarrow> thread_status \<times> reader" where
  "run U s evs = foldl (step U) s evs"

text \<open>
  What the future of the request issued last holds, which is what its \<open>f.get()\<close> ends
  with: the pair the reader has set on the promise; or the error of a broken promise, once
  the destructor, which after its write joins the reader thread, has gone on past the
  returned thread and destroyed \<open>response_promise_\<close> without a value; or nothing yet, and
  then \<open>f.get()\<close> still waits.
\<close>

datatype future_state =
  Ready "string \<times> IECStatus"
  | Broken
  | NotReady

fun future_of :: "thread_status \<times> reader \<Rightarrow> future_state" where
  "future_of (th, st) =
     (case response_promise st of
        Fulfilled v \<Rightarrow> Ready v
      | Pending \<Rightarrow> if th = Returned \<and> terminate st then Broken else NotReady)"



section \<open>The connection handshake of the host (iec\_host\_lib.cc)\<close>

definition kConnectionStringPrefix :: string where
  "kConnectionStringPrefix = ''connect_arduino:''"

definition kMinProtocolVersion :: int where
  "kMinProtocolVersion = 3"

definition kNumRetries :: nat where
  "kNumRetries = 5"

definition kDeviceNumber :: nat where
  "kDeviceNumber = 0"

definition kDataPin :: nat where
  "kDataPin = 3"

definition kClockPin :: nat where
  "kClockPin = 4"

definition kAtnPin :: nat where
  "kAtnPin = 5"

definition kSrqInPin :: nat where
  "kSrqInPin = 6"

definition kResetPin :: nat where
  "kResetPin = 7"

text \<open>
  The fields of \<open>struct tm\<close> that \<open>Initialize\<close> reads from \<open>localtime_r\<close>, taken as a
  parameter; for the time of the call none of them is negative.
\<close>

record tm =
  tm_sec :: nat
  tm_min :: nat
  tm_hour :: nat
  tm_mday :: nat
  tm_mon :: nat
  tm_year :: nat

text \<open>A number as \<open>boost::format\<close> writes it for \<open>%u\<close>: in decimal.\<close>

fun format_u :: "nat \<Rightarrow> string" where
  "format_u n =
     (if n < 10 then [''0123456789'' ! n]
      else format_u (n div 10) @ [''0123456789'' ! (n mod 10)])"

declare format_u.simps [simp del]

definition config_string :: "tm \<Rightarrow> string" where
  "config_string local_time =
     ''OK>'' @ format_u kDeviceNumber @ ''|'' @ format_u kAtnPin @ ''|'' @ format_u kClockPin
     @ ''|'' @ format_u kDataPin @ ''|'' @ format_u kResetPin @ ''|'' @ format_u kSrqInPin
     @ ''|'' @ format_u (tm_year local_time + 1900) @ ''-'' @ format_u (tm_mon local_time + 1)
     @ ''-'' @ format_u (tm_mday local_time) @ ''.'' @ format_u (tm_hour local_time)
     @ '':'' @ format_u (tm_min local_time) @ '':'' @ format_u (tm_sec local_time)
     @ [CHR 0x0D]"

text \<open>
  The retry loop of \<open>Initialize\<close>, from the loop variable \<open>i\<close> on. It ends with the
  connection string that starts with the prefix (the \<open>break\<close>), with the status of a return
  of false, or not at all when a read never comes back.
\<close>

function Initialize_loop ::
  "nat \<Rightarrow> string \<Rightarrow> reader \<Rightarrow> (IECStatus + string) option \<times> reader" where
  "Initialize_loop i connection_string st =
     (if i < kNumRetries then
        (case ReadTerminatedString (CHR 0x0D) kMaxLength st of
           Failed status st1 \<Rightarrow> (Some (Inl status), st1)
         | Starved \<Rightarrow> (None, st)
         | Got connection_string1 st1 \<Rightarrow>
             if length kConnectionStringPrefix \<le> length connection_string1
                \<and> take (length kConnectionStringPrefix) connection_string1
                    = kConnectionStringPrefix
             then (Some (Inr connection_string1), st1)
             else if kNumRetries - 1 \<le> i
             then (Some (Inl (SetError CONNECTION_FAILURE
                     (''Unknown protocol response: '' @ [CHR 0x27]
                        @ GetPrintableString connection_string1 @ [CHR 0x27]))), st1)
             else Initialize_loop (i + 1) connection_string1
                    (log_callback (CHR ''W'') ''CLIENT''
                       (''Malformed connection string '' @ [CHR 0x27]
                          @ connection_string1 @ [CHR 0x27]) st1))
      else (Some (Inr connection_string), st))"
  by pat_completeness auto
termination
  by (relation "measure (\<lambda>(i, cs, st). kNumRetries - i)") auto

declare Initialize_loop.simps [simp del]

text \<open>
  \<open>Initialize\<close>. The C library's \<open>sscanf(s, "%i", &protocol_version)\<close> is a parameter:
  \<open>sscanf_i s\<close> is \<open>None\<close> when the call returns a value \<open>\<le> 0\<close> (nothing converted), and
  the converted integer otherwise. The configuration line is written with \<open>WriteString\<close>;
  of the environment only the failure of that write matters here, no reply is awaited. The
  call ends by starting the reader thread, which then runs \<open>ProcessResponses\<close> on the
  connection \<open>Initialize\<close> leaves.
\<close>

definition Initialize ::
  "arduino \<Rightarrow> (string \<Rightarrow> int option) \<Rightarrow> tm \<Rightarrow> reader \<Rightarrow> (IECStatus + unit) option \<times> reader" where
  "Initialize env sscanf_i local_time st =
     (case Initialize_loop 0 [] st of
        (None, st1) \<Rightarrow> (None, st1)
      | (Some (Inl status), st1) \<Rightarrow> (Some (Inl status), st1)
      | (Some (Inr connection_string), st1) \<Rightarrow>
          (let unsupported = SetError CONNECTION_FAILURE
                 (''Unsupported protocol: '' @ [CHR 0x27] @ connection_string @ [CHR 0x27])
           in case sscanf_i (drop (length kConnectionStringPrefix) connection_string) of
                None \<Rightarrow> (Some (Inl unsupported), st1)
              | Some protocol_version \<Rightarrow>
                  if protocol_version < kMinProtocolVersion
                  then (Some (Inl unsupported), st1)
                  else (case WriteString env (config_string local_time) st1 of
                          Inl status \<Rightarrow> (Some (Inl status), st1)
                        | Inr st2 \<Rightarrow> (Some (Inr ()), st2))))"

text \<open>
  Vocabulary for the statements about \<open>Initialize\<close>: a line that starts with the prefix,
  the bytes of a list of lines, and, for the examples, the reading of \<open>sscanf\<close> with
  \<open>%i\<close> on a decimal numeral without sign, blank or leading zero that fits an \<open>int\<close>
  (on other strings \<open>sscanf_decimal\<close> is not the C function).
\<close>

definition has_prefix :: "string \<Rightarrow> bool" where
  "has_prefix l =
     (length kConnectionStringPrefix \<le> length l
      \<and> take (length kConnectionStringPrefix) l = kConnectionStringPrefix)"

definition lines_wire :: "string list \<Rightarrow> string" where
  "lines_wire ls = concat (map (\<lambda>l. l @ [CHR 0x0D]) ls)"

definition decimal_digit :: "char \<Rightarrow> bool" where
  "decimal_digit c = (48 \<le> (of_char c :: nat) \<and> (of_char c :: nat) \<le> 57)"

definition sscanf_decimal :: "string \<Rightarrow> int option" where
  "sscanf_decimal s =
     (let ds = takeWhile decimal_digit s
      in if ds = [] then None
         else Some (int (foldl (\<lambda>a c. 10 * a + (of_char c - 48)) 0 ds)))"

section \<open>Properties of the line driver\<close>

lemma writePIN_pulled:
  "mode (writePIN p True b p) = OUTPUT \<and> latch (writePIN p True b p) = LOW"
  by (simp add: writePIN_def pinMode_def digitalWrite_def)

lemma writePIN_released: "mode (writePIN p False b p) = INPUT"
  by (simp add: writePIN_def pinMode_def digitalWrite_def)

lemma readPIN_input:
  "mode (snd (readPIN line p b) p) = INPUT \<and> fst (readPIN line p b) = line p"
  by (simp add: readPIN_def pinMode_def digitalRead_def Let_def)

text \<open>
  Claim C9. For each of the four lines the driver writes (ATN, DATA, CLOCK, RESET), writing
  the pulled state leaves the pin in output mode with its latch low, and writing the
  released state leaves it in input mode. Each of the four reads (ATN, DATA, CLOCK, RESET)
  leaves the pin in input mode, and the value it samples is the level of the line, so the
  pin was an input when it was sampled. The reset check \<open>readRESET\<close> returns true exactly
  when the RESET line is sensed low.
\<close>

theorem line_driver_pull_release_read:
  "mode (writeATN iec True b (m_atnPin iec)) = OUTPUT
   \<and> latch (writeATN iec True b (m_atnPin iec)) = LOW
   \<and> mode (writeDATA iec True b (m_dataPin iec)) = OUTPUT
   \<and> latch (writeDATA iec True b (m_dataPin iec)) = LOW
   \<and> mode (writeCLOCK iec True b (m_clockPin iec)) = OUTPUT
   \<and> latch (writeCLOCK iec True b (m_clockPin iec)) = LOW
   \<and> mode (writeRESET iec True b (m_resetPin iec)) = OUTPUT
   \<and> latch (writeRESET iec True b (m_resetPin iec)) = LOW
   \<and> mode (writeATN iec False b (m_atnPin iec)) = INPUT
   \<and> mode (writeDATA iec False b (m_dataPin iec)) = INPUT
   \<and> mode (writeCLOCK iec False b (m_clockPin iec)) = INPUT
   \<and> mode (writeRESET iec False b (m_resetPin iec)) = INPUT
   \<and> mode (snd (readATN line iec b) (m_atnPin iec)) = INPUT
   \<and> fst (readATN line iec b) = line (m_atnPin iec)
   \<and> mode (snd (readDATA line iec b) (m_dataPin iec)) = INPUT
   \<and> fst (readDATA line iec b) = line (m_dataPin iec)
   \<and> mode (snd (readCLOCK line iec b) (m_clockPin iec)) = INPUT
   \<and> fst (readCLOCK line iec b) = line (m_clockPin iec)
   \<and> mode (snd (readRESET line iec b) (m_resetPin iec)) = INPUT
   \<and> fst (readRESET line iec b) = (\<not> line (m_resetPin iec))"
proof -
  have rr: "readRESET line iec b
      = (\<not> fst (readPIN line (m_resetPin iec) b), snd (readPIN line (m_resetPin iec) b))"
    by (simp add: readRESET_def split: prod.split)
  show ?thesis
    unfolding writeATN_def writeDATA_def writeCLOCK_def writeRESET_def
      readATN_def readDATA_def readCLOCK_def rr
    by (simp add: writePIN_pulled writePIN_released readPIN_input)
qed

section \<open>Properties of the channel API\<close>

lemma length_data_chunks: "length (data_chunks data) = (length data + 255) div 256"
  by (simp add: data_chunks_def kMaxSendPacketSize_def)

lemma nth_data_chunks:
  "i < (length data + 255) div 256 \<Longrightarrow> data_chunks data ! i = take 256 (drop (i * 256) data)"
  by (simp add: data_chunks_def kMaxSendPacketSize_def)

lemma chunk_index_pos: "i < (length data + 255) div 256 \<Longrightarrow> i * 256 < length data"
  by arith

lemma concat_take_chunks:
  "m \<le> (length data + 255) div 256 \<Longrightarrow> concat (take m (data_chunks data)) = take (m * 256) data"
proof (induction m)
  case 0
  then show ?case by simp
next
  case (Suc m)
  then have lt: "m < length (data_chunks data)" by (simp add: length_data_chunks)
  have "concat (take (Suc m) (data_chunks data)) = concat (take m (data_chunks data)) @ data_chunks data ! m"
    using lt by (simp add: take_Suc_conv_app_nth)
  also have "\<dots> = take (m * 256) data @ take 256 (drop (m * 256) data)"
    using Suc lt by (simp add: nth_data_chunks length_data_chunks)
  also have "\<dots> = take (m * 256 + 256) data"
    by (simp only: take_add)
  also have "\<dots> = take (Suc m * 256) data"
    by (simp add: add.commute)
  finally show ?case .
qed

lemma loop_step:
  assumes "pos < length data" and "env (length (written c)) = Resolves p s" and "ok s"
  shows "WriteToChannel_loop env dev chan data pos c =
         WriteToChannel_loop env dev chan data (pos + min (length data - pos) 256)
           (c\<lparr>written := written c @ [put_request dev chan (take 256 (drop pos data))],
              response_promise := Fulfilled (p, s)\<rparr>)"
proof -
  have tk: "take (min (length data - pos) 256) (drop pos data) = take 256 (drop pos data)"
    by (simp add: min_def)
  have ln: "length (take 256 (drop pos data)) = min (length data - pos) 256"
    by simp
  show ?thesis
    using assms
    apply (subst WriteToChannel_loop.simps)
    apply (simp add: Let_def WriteString_def RequestResult_def future_get_def put_request_def
        kMaxSendPacketSize_def tk del: length_take take_all_iff)
    apply (simp add: ln del: length_take)
    done
qed

lemma loop_stop_write:
  assumes "pos < length data" and "env (length (written c)) = WriteFails e"
  shows "WriteToChannel_loop env dev chan data pos c = (Some (Inl e), c\<lparr>response_promise := Pending\<rparr>)"
  using assms
  by (subst WriteToChannel_loop.simps) (simp add: Let_def WriteString_def RequestResult_def)

lemma loop_stop_status:
  assumes "pos < length data" and "env (length (written c)) = Resolves p s" and "\<not> ok s"
  shows "WriteToChannel_loop env dev chan data pos c =
         (Some (Inl s),
          c\<lparr>written := written c @ [put_request dev chan (take 256 (drop pos data))],
            response_promise := Fulfilled (p, s)\<rparr>)"
proof -
  have tk: "take (min (length data - pos) 256) (drop pos data) = take 256 (drop pos data)"
    by (simp add: min_def)
  have ln: "length (take 256 (drop pos data)) = min (length data - pos) 256"
    by simp
  show ?thesis
    using assms
    apply (subst WriteToChannel_loop.simps)
    apply (simp add: Let_def WriteString_def RequestResult_def future_get_def put_request_def
        kMaxSendPacketSize_def tk del: length_take take_all_iff)
    apply (simp add: ln del: length_take)
    done
qed

lemma loop_stop_blocked:
  assumes "pos < length data" and "env (length (written c)) = NeverResolves"
  shows "WriteToChannel_loop env dev chan data pos c =
         (None,
          c\<lparr>written := written c @ [put_request dev chan (take 256 (drop pos data))],
            response_promise := Pending\<rparr>)"
proof -
  have tk: "take (min (length data - pos) 256) (drop pos data) = take 256 (drop pos data)"
    by (simp add: min_def)
  have ln: "length (take 256 (drop pos data)) = min (length data - pos) 256"
    by simp
  show ?thesis
    using assms
    apply (subst WriteToChannel_loop.simps)
    apply (simp add: Let_def WriteString_def RequestResult_def future_get_def put_request_def
        kMaxSendPacketSize_def tk del: length_take take_all_iff)
    apply (simp add: ln del: length_take)
    done
qed

lemma loop_done: "length data \<le> pos \<Longrightarrow> WriteToChannel_loop env dev chan data pos c = (Some (Inr ()), c)"
  by (subst WriteToChannel_loop.simps) simp

lemma loop_prefix:
  assumes "m \<le> (length data + 255) div 256"
    and "\<forall>i<m. acknowledged (env (length (written c) + i))"
  shows "\<exists>c'. WriteToChannel_loop env dev chan data 0 c =
               WriteToChannel_loop env dev chan data (min (m * 256) (length data)) c'
             \<and> written c' = written c @ map (put_request dev chan) (take m (data_chunks data))"
  using assms
proof (induction m)
  case 0
  then show ?case by auto
next
  case (Suc m)
  then obtain c' where c': "WriteToChannel_loop env dev chan data 0 c =
               WriteToChannel_loop env dev chan data (min (m * 256) (length data)) c'"
      "written c' = written c @ map (put_request dev chan) (take m (data_chunks data))"
    by auto
  have mlt: "m < (length data + 255) div 256" using Suc.prems by simp
  then have pos: "m * 256 < length data" by (rule chunk_index_pos)
  then have mn: "min (m * 256) (length data) = m * 256" by simp
  have len: "length (written c') = length (written c) + m"
    using mlt by (simp add: c'(2) length_data_chunks)
  from Suc.prems have "acknowledged (env (length (written c) + m))" by simp
  then obtain p s where ex: "env (length (written c')) = Resolves p s" "ok s"
    by (auto simp: acknowledged_def len split: exchange.splits)
  let ?c'' = "c'\<lparr>written := written c' @ [put_request dev chan (take 256 (drop (m * 256) data))],
              response_promise := Fulfilled (p, s)\<rparr>"
  have nxt: "m * 256 + min (length data - m * 256) 256 = min (Suc m * 256) (length data)"
    using pos by simp
  have "WriteToChannel_loop env dev chan data (m * 256) c' =
        WriteToChannel_loop env dev chan data (min (Suc m * 256) (length data)) ?c''"
    using loop_step [of "m * 256" data env c' p s dev chan] pos ex by (simp only: nxt)
  moreover have "written ?c'' = written c @ map (put_request dev chan) (take (Suc m) (data_chunks data))"
    using mlt by (simp add: c'(2) take_Suc_conv_app_nth length_data_chunks nth_data_chunks)
  ultimately show ?case using c'(1) mn by metis
qed

lemma put_request_shape:
  "take 3 (put_request dev chan d) = [CHR ''p'', dev, chan]
   \<and> put_request dev chan d ! 3 = char_of (length d)
   \<and> drop 4 (put_request dev chan d) = d"
  by (simp add: put_request_def kCmdPutData_def)

lemma data_chunk_size:
  assumes "d \<in> set (data_chunks data)"
  shows "0 < length d \<and> length d \<le> 256"
proof -
  from assms obtain i where i: "i < (length data + 255) div 256" "d = take 256 (drop (i * 256) data)"
    by (auto simp: data_chunks_def kMaxSendPacketSize_def)
  from i(1) have "i * 256 < length data" by (rule chunk_index_pos)
  with i(2) show ?thesis by simp
qed

lemma issued_requests:
  assumes "k \<le> (length data + 255) div 256"
    and "rs = map (put_request dev chan) (take k (data_chunks data))"
  shows "length rs = k
     \<and> (\<forall>r\<in>set rs. take 3 r = [CHR ''p'', dev, chan] \<and> r ! 3 = char_of (length (drop 4 r))
            \<and> 0 < length (drop 4 r) \<and> length (drop 4 r) \<le> 256)
     \<and> concat (map (drop 4) rs) = take (k * 256) data"
proof -
  have l: "length rs = k"
    using assms by (simp add: length_data_chunks)
  have d4: "map (drop 4) rs = take k (data_chunks data)"
    unfolding assms(2) by (simp add: put_request_shape o_def)
  have c: "concat (map (drop 4) rs) = take (k * 256) data"
    unfolding d4 using assms(1) by (rule concat_take_chunks)
  have e: "\<forall>r\<in>set rs. take 3 r = [CHR ''p'', dev, chan] \<and> r ! 3 = char_of (length (drop 4 r))
            \<and> 0 < length (drop 4 r) \<and> length (drop 4 r) \<le> 256"
  proof
    fix r assume "r \<in> set rs"
    then obtain d where d: "d \<in> set (take k (data_chunks data))" "r = put_request dev chan d"
      unfolding assms(2) by auto
    from d(1) have "d \<in> set (data_chunks data)" by (rule in_set_takeD)
    then have "0 < length d \<and> length d \<le> 256" by (rule data_chunk_size)
    then show "take 3 r = [CHR ''p'', dev, chan] \<and> r ! 3 = char_of (length (drop 4 r))
            \<and> 0 < length (drop 4 r) \<and> length (drop 4 r) \<le> 256"
      unfolding d(2) by (simp only: put_request_shape)
  qed
  from l e c show ?thesis by blast
qed

text \<open>
  Claim C2. Let \<open>data\<close> be non-empty and \<open>n = ceil (length data / 256)\<close>. As long as each
  exchange is acknowledged, \<open>WriteToChannel\<close> goes on: with the first \<open>m\<close> exchanges
  acknowledged it has written requests \<open>rs\<close>, each of them \<open>p\<close>, device, channel, a length
  byte and between 1 and 256 data bytes, whose data fields concatenated are the first
  \<open>256 * length rs\<close> bytes of \<open>data\<close>. When all \<open>n\<close> exchanges are acknowledged it returns
  true after exactly \<open>n\<close> requests, whose data fields concatenated are \<open>data\<close>. Otherwise the
  first exchange that is not acknowledged ends the call with no further request: a status
  reply that is an error returns false with that status after \<open>m + 1\<close> requests, a failed
  write returns false after \<open>m\<close> written requests, and while no status arrives the call
  stays blocked with \<open>m + 1\<close> requests written, so the next chunk is never written before
  the status of the previous one has arrived.
\<close>

theorem WriteToChannel_chunking:
  assumes "data \<noteq> []"
    and "m \<le> (length data + 255) div 256"
    and "\<forall>i<m. acknowledged (env (length (written c) + i))"
    and "m < (length data + 255) div 256 \<longrightarrow> \<not> acknowledged (env (length (written c) + m))"
  shows "\<exists>rs. written (snd (WriteToChannel env dev chan data c)) = written c @ rs
     \<and> (\<forall>r\<in>set rs. take 3 r = [CHR ''p'', dev, chan] \<and> r ! 3 = char_of (length (drop 4 r))
            \<and> 0 < length (drop 4 r) \<and> length (drop 4 r) \<le> 256)
     \<and> concat (map (drop 4) rs) = take (length rs * 256) data
     \<and> (if m = (length data + 255) div 256
        then fst (WriteToChannel env dev chan data c) = Some (Inr ())
             \<and> length rs = (length data + 255) div 256 \<and> concat (map (drop 4) rs) = data
        else (case env (length (written c) + m) of
                WriteFails e \<Rightarrow>
                  fst (WriteToChannel env dev chan data c) = Some (Inl e) \<and> length rs = m
              | Resolves p s \<Rightarrow>
                  fst (WriteToChannel env dev chan data c) = Some (Inl s) \<and> length rs = m + 1
              | NeverResolves \<Rightarrow>
                  fst (WriteToChannel env dev chan data c) = None \<and> length rs = m + 1))"
proof -
  let ?n = "(length data + 255) div 256"
  let ?W = "WriteToChannel env dev chan data c"
  from loop_prefix [OF assms(2,3), of dev chan] obtain c1 where
    c1: "WriteToChannel_loop env dev chan data 0 c =
           WriteToChannel_loop env dev chan data (min (m * 256) (length data)) c1"
        "written c1 = written c @ map (put_request dev chan) (take m (data_chunks data))"
    by blast
  have W: "?W = WriteToChannel_loop env dev chan data (min (m * 256) (length data)) c1"
    using assms(1) c1(1) by (simp add: WriteToChannel_def)
  have len1: "length (written c1) = length (written c) + m"
    using assms(2) by (simp add: c1(2) length_data_chunks)
  show ?thesis
  proof (cases "m = ?n")
    case True
    then have "length data \<le> min (m * 256) (length data)" by simp
    then have res: "?W = (Some (Inr ()), c1)"
      unfolding W by (rule loop_done)
    define rs where "rs = map (put_request dev chan) (take m (data_chunks data))"
    note pr = issued_requests [OF assms(2) rs_def]
    have full: "take (m * 256) data = data" using True by simp
    have "written (snd ?W) = written c @ rs" by (simp add: res c1(2) rs_def)
    moreover have "fst ?W = Some (Inr ())" by (simp add: res)
    moreover have "concat (map (drop 4) rs) = data" using pr full by simp
    ultimately show ?thesis using pr True by (intro exI [of _ rs]) simp
  next
    case False
    with assms(2) have mlt: "m < ?n" by simp
    then have pos: "m * 256 < length data" by (rule chunk_index_pos)
    then have mn: "min (m * 256) (length data) = m * 256" by simp
    have nack: "\<not> acknowledged (env (length (written c1)))"
      using assms(4) mlt by (simp add: len1)
    have chunk: "take (Suc m) (data_chunks data) = take m (data_chunks data) @ [take 256 (drop (m * 256) data)]"
      using mlt by (simp add: take_Suc_conv_app_nth length_data_chunks nth_data_chunks)
    define rs1 where "rs1 = map (put_request dev chan) (take (Suc m) (data_chunks data))"
    have sm: "Suc m \<le> ?n" using mlt by simp
    note pr1 = issued_requests [OF sm rs1_def]
    define rs0 where "rs0 = map (put_request dev chan) (take m (data_chunks data))"
    note pr0 = issued_requests [OF assms(2) rs0_def]
    have w1: "written c1 @ [put_request dev chan (take 256 (drop (m * 256) data))] = written c @ rs1"
      by (simp add: c1(2) rs1_def chunk)
    show ?thesis
    proof (cases "env (length (written c1))")
      case (WriteFails e)
      have res: "?W = (Some (Inl e), c1\<lparr>response_promise := Pending\<rparr>)"
        unfolding W mn using pos WriteFails by (rule loop_stop_write)
      have "written (snd ?W) = written c @ rs0" by (simp add: res c1(2) rs0_def)
      moreover have "fst ?W = Some (Inl e)" by (simp add: res)
      ultimately show ?thesis
        using pr0 False WriteFails by (intro exI [of _ rs0]) (simp add: len1)
    next
      case (Resolves p s)
      with nack have "\<not> ok s" by (simp add: acknowledged_def)
      with pos Resolves have res: "?W = (Some (Inl s),
          c1\<lparr>written := written c1 @ [put_request dev chan (take 256 (drop (m * 256) data))],
            response_promise := Fulfilled (p, s)\<rparr>)"
        unfolding W mn by (rule loop_stop_status)
      have "written (snd ?W) = written c @ rs1" by (simp add: res w1)
      moreover have "fst ?W = Some (Inl s)" by (simp add: res)
      ultimately show ?thesis
        using pr1 False Resolves by (intro exI [of _ rs1]) (simp add: len1)
    next
      case NeverResolves
      with pos have res: "?W = (None,
          c1\<lparr>written := written c1 @ [put_request dev chan (take 256 (drop (m * 256) data))],
            response_promise := Pending\<rparr>)"
        unfolding W mn by (rule loop_stop_blocked)
      have "written (snd ?W) = written c @ rs1" by (simp add: res w1)
      moreover have "fst ?W = None" by (simp add: res)
      ultimately show ?thesis
        using pr1 False NeverResolves by (intro exI [of _ rs1]) (simp add: len1)
    qed
  qed
qed

theorem WriteToChannel_chunking_witness:
  "fst (WriteToChannel (\<lambda>i. Resolves [] IECStatus_default) (CHR 0x09) (CHR 0x02)
          (replicate 300 (CHR ''x'')) \<lparr>written = [], response_promise = Pending\<rparr>)
     = Some (Inr ())
   \<and> length (written (snd (WriteToChannel (\<lambda>i. Resolves [] IECStatus_default) (CHR 0x09)
          (CHR 0x02) (replicate 300 (CHR ''x'')) \<lparr>written = [], response_promise = Pending\<rparr>)))
     = 2
   \<and> fst (WriteToChannel
          (\<lambda>i. if i = 1 then Resolves [] (SetError IEC_CONNECTION_FAILURE ''74,DRIVE NOT READY'')
                else Resolves [] IECStatus_default)
          (CHR 0x09) (CHR 0x02) (replicate 600 (CHR ''x''))
          \<lparr>written = [], response_promise = Pending\<rparr>)
     = Some (Inl (SetError IEC_CONNECTION_FAILURE ''74,DRIVE NOT READY''))
   \<and> length (written (snd (WriteToChannel
          (\<lambda>i. if i = 1 then Resolves [] (SetError IEC_CONNECTION_FAILURE ''74,DRIVE NOT READY'')
                else Resolves [] IECStatus_default)
          (CHR 0x09) (CHR 0x02) (replicate 600 (CHR ''x''))
          \<lparr>written = [], response_promise = Pending\<rparr>)))
     = 2"
proof -
  let ?c = "\<lparr>written = [], response_promise = Pending\<rparr>"
  let ?e1 = "\<lambda>i::nat. Resolves [] IECStatus_default"
  let ?e2 = "\<lambda>i::nat. if i = 1 then Resolves [] (SetError IEC_CONNECTION_FAILURE ''74,DRIVE NOT READY'')
                else Resolves [] IECStatus_default"
  have a: "fst (WriteToChannel ?e1 (CHR 0x09) (CHR 0x02) (replicate 300 (CHR ''x'')) ?c) = Some (Inr ())
      \<and> length (written (snd (WriteToChannel ?e1 (CHR 0x09) (CHR 0x02) (replicate 300 (CHR ''x'')) ?c))) = 2"
    using WriteToChannel_chunking [of "replicate 300 (CHR ''x'')" 2 ?e1 ?c "CHR 0x09" "CHR 0x02"]
    by (auto simp: acknowledged_def ok_def IECStatus_default_def)
  have b: "fst (WriteToChannel ?e2 (CHR 0x09) (CHR 0x02) (replicate 600 (CHR ''x'')) ?c)
        = Some (Inl (SetError IEC_CONNECTION_FAILURE ''74,DRIVE NOT READY''))
      \<and> length (written (snd (WriteToChannel ?e2 (CHR 0x09) (CHR 0x02) (replicate 600 (CHR ''x'')) ?c))) = 2"
    using WriteToChannel_chunking [of "replicate 600 (CHR ''x'')" 1 ?e2 ?c "CHR 0x09" "CHR 0x02"]
    by (auto simp: acknowledged_def ok_def IECStatus_default_def SetError_def)
  from a b show ?thesis by blast
qed

text \<open>
  Claim C10. On the empty string \<open>WriteToChannel\<close> returns true at once and leaves the
  connection as it was: no request is written and the promise slot is not replaced. (The
  last response is a local variable of the reader thread, out of reach of the API thread.)
\<close>

theorem WriteToChannel_empty:
  "WriteToChannel env device_number channel [] c = (Some (Inr ()), c)"
  by (simp add: WriteToChannel_def)

lemma char_of_natI: "of_char c = n \<Longrightarrow> char_of (n::nat) = c"
  by auto

lemma char_of_256: "char_of (256::nat) = CHR 0x00"
  by (simp add: char_of_eq_iff)

lemma char_of_2: "char_of (Suc (Suc 0)) = CHR 0x02"
  by (rule char_of_natI) simp

text \<open>
  Claim C7, as stated, fails: \<open>OpenChannel\<close> has no length check. With a command string of
  256 bytes and an Arduino that answers with an empty status, it writes the frame with the
  length byte 0 (256 truncated to eight bits) followed by all 256 bytes and returns true;
  it does not fail with \<open>INVALID_ARGUMENT\<close>.
\<close>

theorem OpenChannel_oversized_counterexample:
  "OpenChannel (\<lambda>i. Resolves [] IECStatus_default) (CHR 0x08) (CHR 0x0F)
     (replicate 256 (CHR ''A'')) \<lparr>written = [], response_promise = Pending\<rparr>
   = (Some (Inr ()),
      \<lparr>written = [[CHR ''o'', CHR 0x08, CHR 0x0F, CHR 0x00] @ replicate 256 (CHR ''A'')],
       response_promise = Fulfilled ([], IECStatus_default)\<rparr>)"
  by (simp add: OpenChannel_def RequestResult_def WriteString_def future_get_def kCmdOpen_def
      ok_def IECStatus_default_def Let_def char_of_256)

text \<open>
  Claim C7, amended. For every command string, \<open>OpenChannel\<close> installs a fresh promise and,
  unless the write itself fails, writes the frame \<open>o\<close>, device, channel, length byte,
  command string, where the length byte is the length of the command string modulo 256; for
  a command string of at most 255 bytes that byte is its length. The call checks no length:
  it returns true when the status reply is a success, false with the status of the reply
  when it is an error, false with the status of the writer when the write fails, and it
  does not return while no status arrives.
\<close>

theorem OpenChannel_frame:
  "(case env (length (written c)) of
      WriteFails e \<Rightarrow>
        OpenChannel env dev chan cmd c = (Some (Inl e), c\<lparr>response_promise := Pending\<rparr>)
    | Resolves p s \<Rightarrow>
        OpenChannel env dev chan cmd c =
          ((if ok s then Some (Inr ()) else Some (Inl s)),
           c\<lparr>written := written c @ [[CHR ''o'', dev, chan, char_of (length cmd)] @ cmd],
             response_promise := Fulfilled (p, s)\<rparr>)
    | NeverResolves \<Rightarrow>
        OpenChannel env dev chan cmd c =
          (None,
           c\<lparr>written := written c @ [[CHR ''o'', dev, chan, char_of (length cmd)] @ cmd],
             response_promise := Pending\<rparr>))
   \<and> of_char (char_of (length cmd) :: char) = length cmd mod 256
   \<and> (length cmd \<le> 255 \<longrightarrow> of_char (char_of (length cmd) :: char) = length cmd)"
  by (simp add: OpenChannel_def RequestResult_def WriteString_def future_get_def kCmdOpen_def
      Let_def split: exchange.split)

theorem OpenChannel_frame_witness:
  "OpenChannel (\<lambda>i. Resolves [] IECStatus_default) (CHR 0x09) (CHR 0x0F) ''I0''
     \<lparr>written = [], response_promise = Pending\<rparr>
   = (Some (Inr ()),
      \<lparr>written = [[CHR ''o'', CHR 0x09, CHR 0x0F, CHR 0x02, CHR ''I'', CHR ''0'']],
       response_promise = Fulfilled ([], IECStatus_default)\<rparr>)
   \<and> length ''I0'' \<le> 255
   \<and> of_char (char_of (length ''I0'') :: char) = length ''I0''"
  using OpenChannel_frame [where env = "\<lambda>i. Resolves [] IECStatus_default"
      and c = "\<lparr>written = [], response_promise = Pending\<rparr>"
      and dev = "CHR 0x09" and chan = "CHR 0x0F" and cmd = "''I0''"]
  by (simp add: ok_def IECStatus_default_def char_of_2)

section \<open>Properties of the reader thread\<close>

lemma ReadUpTo_first:
  assumes "buffered st @ fd_data st = c # xs"
  shows "ReadUpTo 1 1 st = Got [c] (st\<lparr>buffered := xs, fd_data := []\<rparr>)"
  using assms by (simp add: ReadUpTo_def fill_buffer_def Let_def)

lemma ReadTerminatedString_line:
  assumes "line_ok l" and "buffered st @ fd_data st = l @ CHR 0x0D # rest"
  shows "ReadTerminatedString (CHR 0x0D) kMaxLength st = Got l (st\<lparr>buffered := rest, fd_data := []\<rparr>)"
proof -
  from assms(1) have nin: "\<And>x. x \<in> set l \<Longrightarrow> x \<noteq> CHR 0x0D" and len: "length l < kMaxLength"
    by (auto simp: line_ok_def)
  have tk: "CHR 0x0D \<in> set (take kMaxLength (l @ CHR 0x0D # rest))"
  proof -
    from len obtain k where k: "kMaxLength - length l = Suc k"
      by (metis Suc_diff_Suc)
    then show ?thesis by (simp add: k)
  qed
  have tw: "takeWhile (\<lambda>c. c \<noteq> CHR 0x0D) (l @ CHR 0x0D # rest) = l"
    using nin by (simp add: takeWhile_append2)
  have dw: "dropWhile (\<lambda>c. c \<noteq> CHR 0x0D) (l @ CHR 0x0D # rest) = CHR 0x0D # rest"
    using nin by (simp add: dropWhile_append2)
  show ?thesis
    using tk by (simp add: ReadTerminatedString_def fill_buffer_def Let_def assms(2) tw dw)
qed

lemma read_frame_body_line:
  assumes "line_ok l" and "buffered st @ fd_data st = l @ CHR 0x0D # rest"
  shows "read_frame_body st k = k l (st\<lparr>buffered := rest, fd_data := []\<rparr>)"
  by (simp add: read_frame_body_def ReadTerminatedString_line [OF assms])

lemma body_frame:
  assumes go: "HasBufferedData st \<or> \<not> terminate st"
    and acc: "frame_accepted U (debug_channel_map st) f"
    and inp: "buffered st @ fd_data st = wire f @ rest"
  shows "ProcessResponses_body U st = Continue (apply_frame U (st\<lparr>buffered := rest, fd_data := []\<rparr>) f)"
proof -
  have ne: "\<not> (\<not> HasBufferedData st \<and> fd_data st = [] \<and> fd_error st = None)"
    using inp by (cases f) (auto simp: HasBufferedData_def)
  show ?thesis
  proof (cases f)
    case (ChannelConfig ch name)
    let ?st1 = "st\<lparr>buffered := ch # name @ CHR 0x0D # rest, fd_data := []\<rparr>"
    have r1: "ReadUpTo 1 1 st = Got [CHR ''!''] ?st1"
      using inp ChannelConfig by (intro ReadUpTo_first) simp
    have lk: "line_ok (ch # name)" using acc ChannelConfig by simp
    have r2: "read_frame_body ?st1 k = k (ch # name) (?st1\<lparr>buffered := rest, fd_data := []\<rparr>)" for k
      by (rule read_frame_body_line [OF lk]) simp
    show ?thesis
      using go ne acc ChannelConfig unfolding ProcessResponses_body_def r1
      by (simp add: r2 apply_frame_def)
  next
    case (DebugMessage level ch msg)
    let ?st1 = "st\<lparr>buffered := level # ch # msg @ CHR 0x0D # rest, fd_data := []\<rparr>"
    have r1: "ReadUpTo 1 1 st = Got [CHR ''D''] ?st1"
      using inp DebugMessage by (intro ReadUpTo_first) simp
    have lk: "line_ok (level # ch # msg)" using acc DebugMessage by simp
    have r2: "read_frame_body ?st1 k = k (level # ch # msg) (?st1\<lparr>buffered := rest, fd_data := []\<rparr>)" for k
      by (rule read_frame_body_line [OF lk]) simp
    show ?thesis
      using go ne acc DebugMessage unfolding ProcessResponses_body_def r1
      by (auto simp add: r2 apply_frame_def log_callback_def)
  next
    case (Response escaped)
    let ?st1 = "st\<lparr>buffered := escaped @ CHR 0x0D # rest, fd_data := []\<rparr>"
    have r1: "ReadUpTo 1 1 st = Got [CHR ''r''] ?st1"
      using inp Response by (intro ReadUpTo_first) simp
    have lk: "line_ok escaped" using acc Response by simp
    have r2: "read_frame_body ?st1 k = k escaped (?st1\<lparr>buffered := rest, fd_data := []\<rparr>)" for k
      by (rule read_frame_body_line [OF lk]) simp
    show ?thesis
      using go ne acc Response unfolding ProcessResponses_body_def r1
      by (auto simp add: r2 apply_frame_def split: sum.splits)
  next
    case (Status msg)
    with acc show ?thesis by simp
  qed
qed

lemma body_status:
  assumes go: "HasBufferedData st \<or> \<not> terminate st"
    and pend: "response_promise st = Pending"
    and lk: "line_ok msg"
    and inp: "buffered st @ fd_data st = wire (Status msg) @ rest"
  shows "ProcessResponses_body U st =
         Continue (apply_frame U (st\<lparr>buffered := rest, fd_data := []\<rparr>) (Status msg))"
proof -
  have ne: "\<not> (\<not> HasBufferedData st \<and> fd_data st = [] \<and> fd_error st = None)"
    using inp by (auto simp: HasBufferedData_def)
  let ?st1 = "st\<lparr>buffered := msg @ CHR 0x0D # rest, fd_data := []\<rparr>"
  have r1: "ReadUpTo 1 1 st = Got [CHR ''s''] ?st1"
    using inp by (intro ReadUpTo_first) simp
  have r2: "read_frame_body ?st1 k = k msg (?st1\<lparr>buffered := rest, fd_data := []\<rparr>)" for k
    by (rule read_frame_body_line [OF lk]) simp
  show ?thesis
    using go ne pend unfolding ProcessResponses_body_def r1
    by (simp add: r2 apply_frame_def status_of_def)
qed

lemma apply_frame_buffers:
  "apply_frame U (st\<lparr>buffered := b, fd_data := d\<rparr>) f = (apply_frame U st f)\<lparr>buffered := b, fd_data := d\<rparr>"
  by (cases f) (simp_all add: apply_frame_def log_callback_def)

lemma apply_frames_buffers:
  "apply_frames U (st\<lparr>buffered := b, fd_data := d\<rparr>) fs = (apply_frames U st fs)\<lparr>buffered := b, fd_data := d\<rparr>"
  unfolding apply_frames_def
  by (induction fs arbitrary: st) (simp_all add: apply_frame_buffers)

lemma apply_frames_Cons: "apply_frames U st (f # fs) = apply_frames U (apply_frame U st f) fs"
  by (simp add: apply_frames_def)

lemma apply_frames_Nil: "apply_frames U st [] = st"
  by (simp add: apply_frames_def)

lemma apply_frame_fields:
  assumes "frame_accepted U m f"
  shows "response_promise (apply_frame U st f) = response_promise st
       \<and> terminate (apply_frame U st f) = terminate st
       \<and> fd_error (apply_frame U st f) = fd_error st
       \<and> written (apply_frame U st f) = written st
       \<and> buffered (apply_frame U st f) = buffered st
       \<and> fd_data (apply_frame U st f) = fd_data st
       \<and> debug_channel_map (apply_frame U st f) = configure (debug_channel_map st) f
       \<and> last_response (apply_frame U st f) = window_payload U (last_response st) [f]"
  using assms by (cases f) (simp_all add: apply_frame_def log_callback_def window_payload_def)

lemma window_payload_Cons:
  "window_payload U lr (f # fs) = window_payload U (window_payload U lr [f]) fs"
  by (cases f) (simp_all add: window_payload_def)

lemma apply_frames_fields:
  assumes "window_accepted U (debug_channel_map st) fs"
  shows "response_promise (apply_frames U st fs) = response_promise st
       \<and> terminate (apply_frames U st fs) = terminate st
       \<and> fd_error (apply_frames U st fs) = fd_error st
       \<and> written (apply_frames U st fs) = written st
       \<and> buffered (apply_frames U st fs) = buffered st
       \<and> fd_data (apply_frames U st fs) = fd_data st
       \<and> debug_channel_map (apply_frames U st fs) = foldl configure (debug_channel_map st) fs
       \<and> last_response (apply_frames U st fs) = window_payload U (last_response st) fs"
  using assms
proof (induction fs arbitrary: st)
  case Nil
  then show ?case by (simp add: apply_frames_Nil window_payload_def)
next
  case (Cons f fs)
  from Cons.prems have a: "frame_accepted U (debug_channel_map st) f"
    and w: "window_accepted U (configure (debug_channel_map st) f) fs" by simp_all
  note ff = apply_frame_fields [OF a, of st]
  from w ff have "window_accepted U (debug_channel_map (apply_frame U st f)) fs" by simp
  from Cons.IH [OF this] ff show ?case
    by (simp add: apply_frames_Cons window_payload_Cons [of U "last_response st" f fs])
qed

lemma wire_nonempty: "wire f \<noteq> []"
  by (cases f) simp_all

lemma turns_window:
  assumes "HasBufferedData st \<or> \<not> terminate st"
    and "window_accepted U (debug_channel_map st) fs"
    and "buffered st @ fd_data st = concat (map wire fs) @ rest"
    and "fs \<noteq> []"
  shows "turns U (length fs) st = Continue ((apply_frames U st fs)\<lparr>buffered := rest, fd_data := []\<rparr>)"
  using assms
proof (induction fs arbitrary: st)
  case Nil
  then show ?case by simp
next
  case (Cons f fs)
  let ?rest1 = "concat (map wire fs) @ rest"
  let ?st1 = "apply_frame U (st\<lparr>buffered := ?rest1, fd_data := []\<rparr>) f"
  from Cons.prems have a: "frame_accepted U (debug_channel_map st) f"
    and w: "window_accepted U (configure (debug_channel_map st) f) fs" by simp_all
  have b: "ProcessResponses_body U st = Continue ?st1"
    using Cons.prems(1) a by (rule body_frame) (use Cons.prems(3) in simp)
  have a': "frame_accepted U (debug_channel_map (st\<lparr>buffered := ?rest1, fd_data := []\<rparr>)) f"
    using a by simp
  note ff = apply_frame_fields [OF a', of "st\<lparr>buffered := ?rest1, fd_data := []\<rparr>"]
  show ?case
  proof (cases "fs = []")
    case True
    then show ?thesis
      by (simp add: b apply_frames_Cons apply_frames_Nil apply_frame_buffers)
  next
    case False
    then have ne: "?rest1 \<noteq> []" by (cases fs) (simp_all add: wire_nonempty)
    have go1: "HasBufferedData ?st1 \<or> \<not> terminate ?st1"
      using ff ne by (simp add: HasBufferedData_def)
    have w1: "window_accepted U (debug_channel_map ?st1) fs" using ff w by simp
    have i1: "buffered ?st1 @ fd_data ?st1 = concat (map wire fs) @ rest" using ff by simp
    from Cons.IH [OF go1 w1 i1 False] show ?thesis
      by (simp add: b apply_frames_Cons apply_frame_buffers apply_frames_buffers)
  qed
qed

text \<open>
  Claim C6. When the reader reads a status frame while a request is pending, the turn sets
  the promise to the pair of \<open>last_response\<close> and a status, and clears \<open>last_response\<close>.
  The status is a success exactly when the message of the frame is empty, and it is of kind
  \<open>IEC_CONNECTION_FAILURE\<close> with the message of the frame, byte for byte, exactly when
  the message is not empty.
\<close>

theorem status_frame_resolves:
  assumes "HasBufferedData st \<or> \<not> terminate st"
    and "response_promise st = Pending"
    and "line_ok msg"
    and "buffered st @ fd_data st = wire (Status msg) @ rest"
  shows "\<exists>st' status. ProcessResponses_body U st = Continue st'
       \<and> response_promise st' = Fulfilled (last_response st, status)
       \<and> last_response st' = []
       \<and> (ok status \<longleftrightarrow> msg = [])
       \<and> (status_code status = IEC_CONNECTION_FAILURE \<and> message status = msg \<longleftrightarrow> msg \<noteq> [])"
proof -
  let ?st' = "apply_frame U (st\<lparr>buffered := rest, fd_data := []\<rparr>) (Status msg)"
  have b: "ProcessResponses_body U st = Continue ?st'"
    using assms by (rule body_status)
  have p: "response_promise ?st' = Fulfilled (last_response st, status_of msg)"
    and l: "last_response ?st' = []"
    by (simp_all add: apply_frame_def)
  have o: "ok (status_of msg) \<longleftrightarrow> msg = []"
    by (simp add: status_of_def ok_def IECStatus_default_def SetError_def)
  have e: "status_code (status_of msg) = IEC_CONNECTION_FAILURE \<and> message (status_of msg) = msg
           \<longleftrightarrow> msg \<noteq> []"
    by (simp add: status_of_def IECStatus_default_def SetError_def)
  from b p l o e show ?thesis by blast
qed

theorem status_frame_resolves_witness:
  "\<exists>st'. ProcessResponses_body Inr
       \<lparr>written = [], response_promise = Pending, buffered = [],
        fd_data = ''s41,FILE NOT FOUND,18,00'' @ [CHR 0x0D],
        fd_error = None, terminate = False, last_response = ''stale'',
        debug_channel_map = Map.empty, logged = []\<rparr> = Continue st'
     \<and> response_promise st'
         = Fulfilled (''stale'', SetError IEC_CONNECTION_FAILURE ''41,FILE NOT FOUND,18,00'')"
proof -
  let ?st = "\<lparr>written = [], response_promise = Pending, buffered = [],
        fd_data = ''s41,FILE NOT FOUND,18,00'' @ [CHR 0x0D],
        fd_error = None, terminate = False, last_response = ''stale'',
        debug_channel_map = Map.empty, logged = []\<rparr>"
  have a: "HasBufferedData ?st \<or> \<not> terminate ?st" by simp
  have b: "response_promise ?st = Pending" by simp
  have c: "line_ok ''41,FILE NOT FOUND,18,00''" by (simp add: line_ok_def kMaxLength_def)
  have d: "buffered ?st @ fd_data ?st = wire (Status ''41,FILE NOT FOUND,18,00'') @ []" by simp
  from status_frame_resolves [OF a b c d, of Inr] obtain st' status where
    s: "ProcessResponses_body Inr ?st = Continue st'"
       "response_promise st' = Fulfilled (last_response ?st, status)"
       "status_code status = IEC_CONNECTION_FAILURE \<and> message status = ''41,FILE NOT FOUND,18,00''"
    by auto
  from s(3) have "status = SetError IEC_CONNECTION_FAILURE ''41,FILE NOT FOUND,18,00''"
    by (simp add: SetError_def)
  with s(1,2) show ?thesis by simp
qed




lemma window_accepted_append:
  "window_accepted U m (fs @ gs) \<Longrightarrow> window_accepted U m fs"
  by (induction fs arbitrary: m) simp_all

lemma window_accepted_take: "window_accepted U m fs \<Longrightarrow> window_accepted U m (take k fs)"
  using window_accepted_append [of U m "take k fs" "drop k fs"] by simp

lemma turns_add:
  "turns U (j + k) st =
     (case turns U j st of
        Continue s \<Rightarrow> turns U k s
      | Return s \<Rightarrow> Return s
      | Blocked s \<Rightarrow> Blocked s
      | Abort s \<Rightarrow> Abort s)"
  by (induction j arbitrary: st) (simp_all split: thread_step.splits)

lemma responses_filter: "responses (filter (\<lambda>f. \<not> is_log_frame f) fs) = responses fs"
  by (induction fs rule: responses.induct) simp_all

lemma window_payload_filter:
  "window_payload U lr (filter (\<lambda>f. \<not> is_log_frame f) fs) = window_payload U lr fs"
  by (simp add: window_payload_def responses_filter)

lemma turns_prefix:
  assumes go: "HasBufferedData st \<or> \<not> terminate st"
    and acc: "window_accepted U (debug_channel_map st) fs"
    and inp: "buffered st @ fd_data st = concat (map wire fs) @ rest"
    and k: "k \<le> length fs"
  shows "\<exists>st_k. turns U k st = Continue st_k
       \<and> response_promise st_k = response_promise st
       \<and> last_response st_k = window_payload U (last_response st) (take k fs)
       \<and> buffered st_k @ fd_data st_k = concat (map wire (drop k fs)) @ rest
       \<and> (rest \<noteq> [] \<longrightarrow> HasBufferedData st_k \<or> \<not> terminate st_k)"
proof (cases "k = 0")
  case True
  with go inp show ?thesis by (simp add: window_payload_def)
next
  case False
  let ?p = "take k fs"
  let ?r = "concat (map wire (drop k fs)) @ rest"
  have ne: "?p \<noteq> []" using False k by auto
  have accp: "window_accepted U (debug_channel_map st) ?p"
    using acc by (rule window_accepted_take)
  have "concat (map wire fs) = concat (map wire (?p @ drop k fs))" by simp
  then have inpp: "buffered st @ fd_data st = concat (map wire ?p) @ ?r"
    using inp by (simp only: map_append concat_append append_assoc)
  have len: "length ?p = k" using k by simp
  from turns_window [OF go accp inpp ne]
  have t: "turns U k st = Continue ((apply_frames U st ?p)\<lparr>buffered := ?r, fd_data := []\<rparr>)"
    by (simp only: len)
  note af = apply_frames_fields [OF accp]
  have g: "rest \<noteq> [] \<longrightarrow>
           HasBufferedData ((apply_frames U st ?p)\<lparr>buffered := ?r, fd_data := []\<rparr>)
           \<or> \<not> terminate ((apply_frames U st ?p)\<lparr>buffered := ?r, fd_data := []\<rparr>)"
    by (simp add: HasBufferedData_def)
  from t af g show ?thesis by simp
qed

text \<open>
  What the reader does fulfil. Let the bytes waiting for the reader be the frames \<open>fs\<close>, then a
  status frame, where \<open>fs\<close> are \<open>!\<close> frames, \<open>D\<close> frames on a channel configured by then and
  \<open>r\<close> frames, all of them well formed. With a request pending, the reader takes one turn
  per frame, the promise is still pending after every one of them, and the turn on the status
  frame resolves it with the payload that the \<open>r\<close> frames alone give: the \<open>!\<close> and \<open>D\<close> frames
  may be taken away without changing it.
\<close>

theorem log_frames_transparent:
  assumes go: "HasBufferedData st \<or> \<not> terminate st"
    and pend: "response_promise st = Pending"
    and acc: "window_accepted U (debug_channel_map st) fs"
    and lk: "line_ok msg"
    and inp: "buffered st @ fd_data st = concat (map wire fs) @ wire (Status msg) @ rest"
  shows "(\<forall>k\<le>length fs. \<exists>st_k. turns U k st = Continue st_k \<and> response_promise st_k = Pending)
       \<and> (\<exists>st'. turns U (Suc (length fs)) st = Continue st'
             \<and> response_promise st' =
                 Fulfilled (window_payload U (last_response st)
                              (filter (\<lambda>f. \<not> is_log_frame f) fs), status_of msg))"
proof
  show "\<forall>k\<le>length fs. \<exists>st_k. turns U k st = Continue st_k \<and> response_promise st_k = Pending"
  proof (intro allI impI)
    fix k assume "k \<le> length fs"
    from turns_prefix [OF go acc inp this] pend
    show "\<exists>st_k. turns U k st = Continue st_k \<and> response_promise st_k = Pending"
      by auto
  qed
next
  from turns_prefix [OF go acc inp le_refl] obtain st_n where
    n: "turns U (length fs) st = Continue st_n"
       "response_promise st_n = response_promise st"
       "last_response st_n = window_payload U (last_response st) fs"
       "buffered st_n @ fd_data st_n = wire (Status msg) @ rest"
       "HasBufferedData st_n \<or> \<not> terminate st_n"
    by (auto simp: wire_nonempty)
  let ?st' = "apply_frame U (st_n\<lparr>buffered := rest, fd_data := []\<rparr>) (Status msg)"
  have pn: "response_promise st_n = Pending" using n(2) pend by simp
  have b: "ProcessResponses_body U st_n = Continue ?st'"
    using n(5) pn lk n(4) by (rule body_status)
  have "turns U (length fs + 1) st = Continue ?st'"
    unfolding turns_add n(1) by (simp add: b)
  moreover have "response_promise ?st' =
      Fulfilled (window_payload U (last_response st) (filter (\<lambda>f. \<not> is_log_frame f) fs),
                 status_of msg)"
    by (simp add: apply_frame_def n(3) window_payload_filter)
  ultimately show "\<exists>st'. turns U (Suc (length fs)) st = Continue st'
             \<and> response_promise st' =
                 Fulfilled (window_payload U (last_response st)
                              (filter (\<lambda>f. \<not> is_log_frame f) fs), status_of msg)"
    by (intro exI [of _ ?st']) simp
qed


theorem log_frames_transparent_witness:
  "(\<exists>st_k. turns Inr 2
        \<lparr>written = [], response_promise = Pending, buffered = [],
         fd_data = ''!ACLIENT'' @ [CHR 0x0D] @ ''DDAhello'' @ [CHR 0x0D]
                   @ ''rX'' @ [CHR 0x0D] @ ''s'' @ [CHR 0x0D],
         fd_error = None, terminate = False, last_response = [],
         debug_channel_map = Map.empty, logged = []\<rparr> = Continue st_k
      \<and> response_promise st_k = Pending)
   \<and> (\<exists>st'. turns Inr 4
        \<lparr>written = [], response_promise = Pending, buffered = [],
         fd_data = ''!ACLIENT'' @ [CHR 0x0D] @ ''DDAhello'' @ [CHR 0x0D]
                   @ ''rX'' @ [CHR 0x0D] @ ''s'' @ [CHR 0x0D],
         fd_error = None, terminate = False, last_response = [],
         debug_channel_map = Map.empty, logged = []\<rparr> = Continue st'
      \<and> response_promise st' = Fulfilled (''X'', IECStatus_default))"
proof -
  let ?st = "\<lparr>written = [], response_promise = Pending, buffered = [],
         fd_data = ''!ACLIENT'' @ [CHR 0x0D] @ ''DDAhello'' @ [CHR 0x0D]
                   @ ''rX'' @ [CHR 0x0D] @ ''s'' @ [CHR 0x0D],
         fd_error = None, terminate = False, last_response = [],
         debug_channel_map = Map.empty, logged = []\<rparr>"
  let ?fs = "[ChannelConfig (CHR ''A'') ''CLIENT'',
              DebugMessage (CHR ''D'') (CHR ''A'') ''hello'', Response ''X'']"
  have go: "HasBufferedData ?st \<or> \<not> terminate ?st" by simp
  have pend: "response_promise ?st = Pending" by simp
  have acc: "window_accepted Inr (debug_channel_map ?st) ?fs"
    by (simp add: line_ok_def kMaxLength_def)
  have lk: "line_ok []" by (simp add: line_ok_def kMaxLength_def)
  have inp: "buffered ?st @ fd_data ?st = concat (map wire ?fs) @ wire (Status []) @ []"
    by simp
  note t = log_frames_transparent [OF go pend acc lk inp]
  from t have "\<exists>st_k. turns Inr 2 ?st = Continue st_k \<and> response_promise st_k = Pending"
    by (auto simp del: turns.simps dest!: spec [of _ 2])
  moreover from t have "\<exists>st'. turns Inr 4 ?st = Continue st'
      \<and> response_promise st' = Fulfilled (''X'', IECStatus_default)"
    by (auto simp del: turns.simps simp add: eval_nat_numeral window_payload_def status_of_def)
  ultimately show ?thesis by blast
qed

text \<open>
  Claim C3 names a behaviour that the code announces and does not have. With a request
  written and its promise pending, the bytes \<open>DDAhello\<close>, carriage return, then the status
  frame \<open>s\<close>, carriage return, wait for the reader, and channel \<open>A\<close> is not configured: the turn of
  the reader on the \<open>D\<close> frame logs "Malformed debug message 'DAhello'" at level \<open>E\<close> on channel
  \<open>CLIENT\<close> and returns, under the comment "don't terminate execution"; the status frame stays
  unread in the buffer and the future of the request is never ready. The same holds, with
  channel \<open>A\<close> configured, of the frame \<open>WAhello\<close>: its first byte runs the default branch,
  which logs "Unknown response msg type 0x57" and returns under the comment "Ignore all other
  messages". Without the log frame the same state resolves the request with an empty payload
  and the success status.
\<close>

theorem log_frame_stops_reader:
  "step Inr
      (Running,
       \<lparr>written = [''g'' @ [CHR 0x09, CHR 0x0F]], response_promise = Pending, buffered = [],
        fd_data = ''DDAhello'' @ [CHR 0x0D] @ ''s'' @ [CHR 0x0D],
        fd_error = None, terminate = False, last_response = [],
        debug_channel_map = Map.empty, logged = []\<rparr>) Turn
   = (Returned,
      \<lparr>written = [''g'' @ [CHR 0x09, CHR 0x0F]], response_promise = Pending,
       buffered = ''s'' @ [CHR 0x0D], fd_data = [],
       fd_error = None, terminate = False, last_response = [],
       debug_channel_map = Map.empty,
       logged = [(CHR ''E'', ''CLIENT'',
                  ''Malformed debug message '' @ [CHR 0x27] @ ''DAhello'' @ [CHR 0x27])]\<rparr>)
   \<and> future_of (run Inr
      (Running,
       \<lparr>written = [''g'' @ [CHR 0x09, CHR 0x0F]], response_promise = Pending, buffered = [],
        fd_data = ''DDAhello'' @ [CHR 0x0D] @ ''s'' @ [CHR 0x0D],
        fd_error = None, terminate = False, last_response = [],
        debug_channel_map = Map.empty, logged = []\<rparr>) [Turn, Turn]) = NotReady
   \<and> step Inr
      (Running,
       \<lparr>written = [''g'' @ [CHR 0x09, CHR 0x0F]], response_promise = Pending, buffered = [],
        fd_data = ''WAhello'' @ [CHR 0x0D] @ ''s'' @ [CHR 0x0D],
        fd_error = None, terminate = False, last_response = [],
        debug_channel_map = [CHR ''A'' \<mapsto> ''CLIENT''], logged = []\<rparr>) Turn
   = (Returned,
      \<lparr>written = [''g'' @ [CHR 0x09, CHR 0x0F]], response_promise = Pending,
       buffered = ''Ahello'' @ [CHR 0x0D] @ ''s'' @ [CHR 0x0D], fd_data = [],
       fd_error = None, terminate = False, last_response = [],
       debug_channel_map = [CHR ''A'' \<mapsto> ''CLIENT''],
       logged = [(CHR ''E'', ''CLIENT'', ''Unknown response msg type 0x57'')]\<rparr>)
   \<and> future_of (run Inr
      (Running,
       \<lparr>written = [''g'' @ [CHR 0x09, CHR 0x0F]], response_promise = Pending, buffered = [],
        fd_data = ''WAhello'' @ [CHR 0x0D] @ ''s'' @ [CHR 0x0D],
        fd_error = None, terminate = False, last_response = [],
        debug_channel_map = [CHR ''A'' \<mapsto> ''CLIENT''], logged = []\<rparr>) [Turn, Turn]) = NotReady
   \<and> future_of (run Inr
      (Running,
       \<lparr>written = [''g'' @ [CHR 0x09, CHR 0x0F]], response_promise = Pending, buffered = [],
        fd_data = ''s'' @ [CHR 0x0D],
        fd_error = None, terminate = False, last_response = [],
        debug_channel_map = Map.empty, logged = []\<rparr>) [Turn])
     = Ready ([], IECStatus_default)"
  by (simp add: run_def ProcessResponses_body_def HasBufferedData_def ReadUpTo_def
      fill_buffer_def read_frame_body_def ReadTerminatedString_def kMaxLength_def
      IECStatus_default_def log_callback_def char_to_int_def Let_def format_hex_def
      hex_digits.simps)




















section \<open>Properties of the connection handshake\<close>

lemma Initialize_loop_banner:
  assumes "i < kNumRetries" and "line_ok b" and "has_prefix b"
    and "buffered st @ fd_data st = b @ CHR 0x0D # rest"
  shows "Initialize_loop i cs st = (Some (Inr b), st\<lparr>buffered := rest, fd_data := []\<rparr>)"
  using assms(1,3)
  by (subst Initialize_loop.simps)
     (simp add: ReadTerminatedString_line [OF assms(2,4)] has_prefix_def)

lemma Initialize_loop_retry:
  assumes "i < kNumRetries - 1" and "line_ok g" and "\<not> has_prefix g"
    and "buffered st @ fd_data st = g @ CHR 0x0D # rest"
  shows "Initialize_loop i cs st =
         Initialize_loop (i + 1) g
           (log_callback (CHR ''W'') ''CLIENT''
              (''Malformed connection string '' @ [CHR 0x27] @ g @ [CHR 0x27])
              (st\<lparr>buffered := rest, fd_data := []\<rparr>))"
  using assms(1,3)
  by (subst Initialize_loop.simps)
     (auto simp add: ReadTerminatedString_line [OF assms(2,4)] has_prefix_def)

lemma Initialize_loop_give_up:
  assumes "i = kNumRetries - 1" and "line_ok g" and "\<not> has_prefix g"
    and "buffered st @ fd_data st = g @ CHR 0x0D # rest"
  shows "Initialize_loop i cs st =
         (Some (Inl (SetError CONNECTION_FAILURE
                  (''Unknown protocol response: '' @ [CHR 0x27]
                     @ GetPrintableString g @ [CHR 0x27]))),
          st\<lparr>buffered := rest, fd_data := []\<rparr>)"
  using assms(1,3)
  by (subst Initialize_loop.simps)
     (auto simp add: ReadTerminatedString_line [OF assms(2,4)] has_prefix_def kNumRetries_def)

lemma Initialize_loop_skip:
  assumes "i + length gs \<le> kNumRetries - 1"
    and "\<forall>g\<in>set gs. line_ok g \<and> \<not> has_prefix g"
    and "buffered st @ fd_data st = lines_wire gs @ after"
  shows "\<exists>cs' st'. Initialize_loop i cs st = Initialize_loop (i + length gs) cs' st'
           \<and> buffered st' @ fd_data st' = after \<and> written st' = written st"
  using assms
proof (induction gs arbitrary: i cs st)
  case Nil
  then show ?case by (auto simp: lines_wire_def)
next
  case (Cons g gs)
  let ?st1 = "log_callback (CHR ''W'') ''CLIENT''
              (''Malformed connection string '' @ [CHR 0x27] @ g @ [CHR 0x27])
              (st\<lparr>buffered := lines_wire gs @ after, fd_data := []\<rparr>)"
  from Cons.prems have i: "i < kNumRetries - 1" and lk: "line_ok g" and np: "\<not> has_prefix g"
    by simp_all
  from Cons.prems(3) have inp: "buffered st @ fd_data st = g @ CHR 0x0D # (lines_wire gs @ after)"
    by (simp add: lines_wire_def)
  have s: "Initialize_loop i cs st = Initialize_loop (i + 1) g ?st1"
    using i lk np inp by (rule Initialize_loop_retry)
  have a: "(i + 1) + length gs \<le> kNumRetries - 1" using Cons.prems(1) by simp
  have b: "\<forall>g\<in>set gs. line_ok g \<and> \<not> has_prefix g" using Cons.prems(2) by simp
  have c: "buffered ?st1 @ fd_data ?st1 = lines_wire gs @ after" by (simp add: log_callback_def)
  from Cons.IH [OF a b c, of g] obtain cs' st' where
    r: "Initialize_loop (i + 1) g ?st1 = Initialize_loop (i + 1 + length gs) cs' st'"
       "buffered st' @ fd_data st' = after" "written st' = written ?st1"
    by blast
  have "Initialize_loop i cs st = Initialize_loop (i + length (g # gs)) cs' st'"
    using s r(1) by simp
  moreover have "written st' = written st" using r(3) by (simp add: log_callback_def)
  ultimately show ?case using r(2) by blast
qed

text \<open>
  Claim C5. Let the first line \<open>Initialize\<close> reads be a banner: the prefix
  \<open>connect_arduino:\<close> and a suffix. \<open>Initialize\<close> hands the suffix to \<open>sscanf\<close> with \<open>%i\<close>.
  When nothing is converted, or the version converted is below 3, it returns false with a
  status of kind \<open>CONNECTION_FAILURE\<close>. When the version is 3 or greater the banner is
  accepted: \<open>Initialize\<close> writes the configuration line and returns true, and it returns
  false only with the status of the writer when that write fails.
\<close>

theorem Initialize_protocol_version:
  assumes "line_ok (kConnectionStringPrefix @ suffix)"
    and "buffered st @ fd_data st = kConnectionStringPrefix @ suffix @ CHR 0x0D # rest"
  shows "case sscanf_i suffix of
           None \<Rightarrow>
             (\<exists>e st'. Initialize env sscanf_i lt st = (Some (Inl e), st')
                \<and> status_code e = CONNECTION_FAILURE)
         | Some v \<Rightarrow>
             if v < 3
             then (\<exists>e st'. Initialize env sscanf_i lt st = (Some (Inl e), st')
                     \<and> status_code e = CONNECTION_FAILURE)
             else (case env (length (written st)) of
                     WriteFails e \<Rightarrow> (\<exists>st'. Initialize env sscanf_i lt st = (Some (Inl e), st'))
                   | _ \<Rightarrow> (\<exists>st'. Initialize env sscanf_i lt st = (Some (Inr ()), st')
                            \<and> written st' = written st @ [config_string lt]))"
proof -
  let ?b = "kConnectionStringPrefix @ suffix"
  have hp: "has_prefix ?b" by (simp add: has_prefix_def)
  have inp: "buffered st @ fd_data st = ?b @ CHR 0x0D # rest" using assms(2) by simp
  have l: "Initialize_loop 0 [] st = (Some (Inr ?b), st\<lparr>buffered := rest, fd_data := []\<rparr>)"
    by (rule Initialize_loop_banner [OF _ assms(1) hp inp]) (simp add: kNumRetries_def)
  show ?thesis
    by (simp add: Initialize_def l Let_def SetError_def kMinProtocolVersion_def WriteString_def
        split: option.split exchange.split)
qed

text \<open>
  Claim C4. \<open>Initialize\<close> reads lines that end with \<open>\r\<close> within 513 bytes (\<open>line_ok\<close>).
  When fewer than 5 lines without the prefix \<open>connect_arduino:\<close> come first and the next line
  starts with the prefix and carries a version of at least 3, \<open>Initialize\<close> skips the lines
  before it, writes the configuration line and returns true (the write of the configuration
  line taken to succeed). When the first 5 lines all lack the prefix, it returns false with
  a status of kind \<open>CONNECTION_FAILURE\<close>, whatever follows them.
\<close>

theorem Initialize_banner_retry:
  assumes "\<forall>g\<in>set garbage. line_ok g \<and> \<not> has_prefix g"
  shows "(length garbage < 5 \<and> line_ok (kConnectionStringPrefix @ suffix)
            \<and> sscanf_i suffix = Some v \<and> 3 \<le> v
            \<and> (\<forall>e. env (length (written st)) \<noteq> WriteFails e)
            \<and> buffered st @ fd_data st
                = lines_wire garbage @ kConnectionStringPrefix @ suffix @ CHR 0x0D # rest
          \<longrightarrow> (\<exists>st'. Initialize env sscanf_i lt st = (Some (Inr ()), st')
                 \<and> written st' = written st @ [config_string lt]))
       \<and> (length garbage = 5 \<and> buffered st @ fd_data st = lines_wire garbage @ rest
          \<longrightarrow> (\<exists>e st'. Initialize env sscanf_i lt st = (Some (Inl e), st')
                 \<and> status_code e = CONNECTION_FAILURE))"
proof (intro conjI impI)
  let ?b = "kConnectionStringPrefix @ suffix"
  assume a: "length garbage < 5 \<and> line_ok ?b \<and> sscanf_i suffix = Some v \<and> 3 \<le> v
            \<and> (\<forall>e. env (length (written st)) \<noteq> WriteFails e)
            \<and> buffered st @ fd_data st
                = lines_wire garbage @ kConnectionStringPrefix @ suffix @ CHR 0x0D # rest"
  then have i: "0 + length garbage \<le> kNumRetries - 1" by (simp add: kNumRetries_def)
  from a have inp: "buffered st @ fd_data st = lines_wire garbage @ (?b @ CHR 0x0D # rest)" by simp
  from Initialize_loop_skip [OF i assms inp, of "[]"] obtain cs' st1 where
    s: "Initialize_loop 0 [] st = Initialize_loop (length garbage) cs' st1"
       "buffered st1 @ fd_data st1 = ?b @ CHR 0x0D # rest" "written st1 = written st"
    by auto
  have hp: "has_prefix ?b" by (simp add: has_prefix_def)
  have lt5: "length garbage < kNumRetries" using a by (simp add: kNumRetries_def)
  from a have lk: "line_ok ?b" by simp
  have l: "Initialize_loop 0 [] st = (Some (Inr ?b), st1\<lparr>buffered := rest, fd_data := []\<rparr>)"
    unfolding s(1) by (rule Initialize_loop_banner [OF lt5 lk hp s(2)])
  from a have w: "\<And>e. env (length (written st)) \<noteq> WriteFails e" by simp
  show "\<exists>st'. Initialize env sscanf_i lt st = (Some (Inr ()), st')
                 \<and> written st' = written st @ [config_string lt]"
    using a w
    by (cases "env (length (written st))")
       (simp_all add: Initialize_def l Let_def kMinProtocolVersion_def WriteString_def s(3))
next
  assume a: "length garbage = 5 \<and> buffered st @ fd_data st = lines_wire garbage @ rest"
  then obtain gs g where g: "garbage = gs @ [g]" "length gs = 4"
    by (cases garbage rule: rev_cases) auto
  have i: "0 + length gs \<le> kNumRetries - 1" using g by (simp add: kNumRetries_def)
  have gsok: "\<forall>g\<in>set gs. line_ok g \<and> \<not> has_prefix g" using assms g by simp
  have gok: "line_ok g" "\<not> has_prefix g" using assms g by simp_all
  from a g have inp: "buffered st @ fd_data st = lines_wire gs @ (g @ CHR 0x0D # rest)"
    by (simp add: lines_wire_def)
  from Initialize_loop_skip [OF i gsok inp, of "[]"] obtain cs' st1 where
    s: "Initialize_loop 0 [] st = Initialize_loop (length gs) cs' st1"
       "buffered st1 @ fd_data st1 = g @ CHR 0x0D # rest"
    by auto
  have last: "length gs = kNumRetries - 1" using g by (simp add: kNumRetries_def)
  have l: "Initialize_loop 0 [] st =
         (Some (Inl (SetError CONNECTION_FAILURE
                  (''Unknown protocol response: '' @ [CHR 0x27]
                     @ GetPrintableString g @ [CHR 0x27]))),
          st1\<lparr>buffered := rest, fd_data := []\<rparr>)"
    unfolding s(1) by (rule Initialize_loop_give_up [OF last gok s(2)])
  show "\<exists>e st'. Initialize env sscanf_i lt st = (Some (Inl e), st')
                 \<and> status_code e = CONNECTION_FAILURE"
    by (simp add: Initialize_def l SetError_def)
qed


lemma sscanf_decimal_examples:
  "sscanf_decimal ''2'' = Some 2" "sscanf_decimal ''3'' = Some 3"
  by (simp_all add: sscanf_decimal_def decimal_digit_def)

theorem Initialize_protocol_version_witness:
  "(\<exists>e st'. Initialize (\<lambda>i. NeverResolves) sscanf_decimal
        \<lparr>tm_sec = 7, tm_min = 30, tm_hour = 12, tm_mday = 30, tm_mon = 9, tm_year = 126\<rparr>
        \<lparr>written = [], response_promise = Pending, buffered = [],
         fd_data = ''connect_arduino:2'' @ [CHR 0x0D],
         fd_error = None, terminate = False, last_response = [],
         debug_channel_map = Map.empty, logged = []\<rparr> = (Some (Inl e), st')
      \<and> status_code e = CONNECTION_FAILURE)
   \<and> (\<exists>st'. Initialize (\<lambda>i. NeverResolves) sscanf_decimal
        \<lparr>tm_sec = 7, tm_min = 30, tm_hour = 12, tm_mday = 30, tm_mon = 9, tm_year = 126\<rparr>
        \<lparr>written = [], response_promise = Pending, buffered = [],
         fd_data = ''connect_arduino:3'' @ [CHR 0x0D],
         fd_error = None, terminate = False, last_response = [],
         debug_channel_map = Map.empty, logged = []\<rparr> = (Some (Inr ()), st'))"
proof -
  let ?lt = "\<lparr>tm_sec = 7, tm_min = 30, tm_hour = 12, tm_mday = 30, tm_mon = 9, tm_year = 126\<rparr>"
  let ?st2 = "\<lparr>written = [], response_promise = Pending, buffered = [],
         fd_data = ''connect_arduino:2'' @ [CHR 0x0D],
         fd_error = None, terminate = False, last_response = [],
         debug_channel_map = Map.empty, logged = []\<rparr>"
  let ?st3 = "\<lparr>written = [], response_promise = Pending, buffered = [],
         fd_data = ''connect_arduino:3'' @ [CHR 0x0D],
         fd_error = None, terminate = False, last_response = [],
         debug_channel_map = Map.empty, logged = []\<rparr>"
  have l2: "line_ok (kConnectionStringPrefix @ ''2'')"
    and l3: "line_ok (kConnectionStringPrefix @ ''3'')"
    by (simp_all add: line_ok_def kConnectionStringPrefix_def kMaxLength_def)
  have i2: "buffered ?st2 @ fd_data ?st2 = kConnectionStringPrefix @ ''2'' @ CHR 0x0D # []"
    and i3: "buffered ?st3 @ fd_data ?st3 = kConnectionStringPrefix @ ''3'' @ CHR 0x0D # []"
    by (simp_all add: kConnectionStringPrefix_def)
  from Initialize_protocol_version [OF l2 i2, where sscanf_i = sscanf_decimal
      and env = "\<lambda>i. NeverResolves" and lt = ?lt]
  have a: "\<exists>e st'. Initialize (\<lambda>i. NeverResolves) sscanf_decimal ?lt ?st2 = (Some (Inl e), st')
      \<and> status_code e = CONNECTION_FAILURE"
    by (simp add: sscanf_decimal_examples)
  from Initialize_protocol_version [OF l3 i3, where sscanf_i = sscanf_decimal
      and env = "\<lambda>i. NeverResolves" and lt = ?lt]
  have b: "\<exists>st'. Initialize (\<lambda>i. NeverResolves) sscanf_decimal ?lt ?st3 = (Some (Inr ()), st')"
    by (auto simp add: sscanf_decimal_examples)
  from a b show ?thesis by blast
qed

theorem Initialize_banner_retry_witness:
  "(\<exists>st'. Initialize (\<lambda>i. NeverResolves) sscanf_decimal
        \<lparr>tm_sec = 7, tm_min = 30, tm_hour = 12, tm_mday = 30, tm_mon = 9, tm_year = 126\<rparr>
        \<lparr>written = [], response_promise = Pending, buffered = [],
         fd_data = ''@@'' @ [CHR 0x0D] @ [CHR 0x0D] @ ''connect_ard'' @ [CHR 0x0D]
                   @ ''uino:3'' @ [CHR 0x0D] @ ''connect_arduino:3'' @ [CHR 0x0D],
         fd_error = None, terminate = False, last_response = [],
         debug_channel_map = Map.empty, logged = []\<rparr> = (Some (Inr ()), st'))
   \<and> (\<exists>e st'. Initialize (\<lambda>i. NeverResolves) sscanf_decimal
        \<lparr>tm_sec = 7, tm_min = 30, tm_hour = 12, tm_mday = 30, tm_mon = 9, tm_year = 126\<rparr>
        \<lparr>written = [], response_promise = Pending, buffered = [],
         fd_data = ''@@'' @ [CHR 0x0D] @ [CHR 0x0D] @ ''connect_ard'' @ [CHR 0x0D]
                   @ ''uino:3'' @ [CHR 0x0D] @ ''x'' @ [CHR 0x0D]
                   @ ''connect_arduino:3'' @ [CHR 0x0D],
         fd_error = None, terminate = False, last_response = [],
         debug_channel_map = Map.empty, logged = []\<rparr> = (Some (Inl e), st')
      \<and> status_code e = CONNECTION_FAILURE)"
proof -
  let ?lt = "\<lparr>tm_sec = 7, tm_min = 30, tm_hour = 12, tm_mday = 30, tm_mon = 9, tm_year = 126\<rparr>"
  let ?st4 = "\<lparr>written = [], response_promise = Pending, buffered = [],
         fd_data = ''@@'' @ [CHR 0x0D] @ [CHR 0x0D] @ ''connect_ard'' @ [CHR 0x0D]
                   @ ''uino:3'' @ [CHR 0x0D] @ ''connect_arduino:3'' @ [CHR 0x0D],
         fd_error = None, terminate = False, last_response = [],
         debug_channel_map = Map.empty, logged = []\<rparr>"
  let ?st5 = "\<lparr>written = [], response_promise = Pending, buffered = [],
         fd_data = ''@@'' @ [CHR 0x0D] @ [CHR 0x0D] @ ''connect_ard'' @ [CHR 0x0D]
                   @ ''uino:3'' @ [CHR 0x0D] @ ''x'' @ [CHR 0x0D]
                   @ ''connect_arduino:3'' @ [CHR 0x0D],
         fd_error = None, terminate = False, last_response = [],
         debug_channel_map = Map.empty, logged = []\<rparr>"
  let ?g4 = "[''@@'', [], ''connect_ard'', ''uino:3'']"
  let ?g5 = "[''@@'', [], ''connect_ard'', ''uino:3'', ''x'']"
  have g4: "\<forall>g\<in>set ?g4. line_ok g \<and> \<not> has_prefix g"
    and g5: "\<forall>g\<in>set ?g5. line_ok g \<and> \<not> has_prefix g"
    by (simp_all add: line_ok_def has_prefix_def kConnectionStringPrefix_def kMaxLength_def)
  have l3: "line_ok (kConnectionStringPrefix @ ''3'')"
    by (simp add: line_ok_def kConnectionStringPrefix_def kMaxLength_def)
  have i4: "buffered ?st4 @ fd_data ?st4
      = lines_wire ?g4 @ kConnectionStringPrefix @ ''3'' @ CHR 0x0D # []"
    by (simp add: kConnectionStringPrefix_def lines_wire_def)
  have i5: "buffered ?st5 @ fd_data ?st5
      = lines_wire ?g5 @ ''connect_arduino:3'' @ [CHR 0x0D]"
    by (simp add: lines_wire_def)
  from Initialize_banner_retry [OF g4, where suffix = "''3''" and sscanf_i = sscanf_decimal
      and v = 3 and env = "\<lambda>i. NeverResolves" and st = ?st4 and rest = "[]" and lt = ?lt]
    l3 i4
  have a: "\<exists>st'. Initialize (\<lambda>i. NeverResolves) sscanf_decimal ?lt ?st4 = (Some (Inr ()), st')"
    by (auto simp add: sscanf_decimal_examples)
  from Initialize_banner_retry [OF g5, where sscanf_i = sscanf_decimal
      and env = "\<lambda>i. NeverResolves" and st = ?st5
      and rest = "''connect_arduino:3'' @ [CHR 0x0D]" and lt = ?lt] i5
  have b: "\<exists>e st'. Initialize (\<lambda>i. NeverResolves) sscanf_decimal ?lt ?st5 = (Some (Inl e), st')
      \<and> status_code e = CONNECTION_FAILURE"
    by auto
  from a b show ?thesis by blast
qed

end
